theory Spec2Isabelle
  imports Complex_Main
begin

section \<open>Data model of GameCanvas\<close>

text \<open>
  JavaScript numbers are modelled as reals: NaN, the infinities and rounding are outside
  the model. The player's modes and the object types are the closed variants the source
  compares against.
\<close>

datatype PlayerMode = CUBE | SHIP | BALL | UFO | WAVE | ROBOT | SPIDER | SWING | JETPACK

text \<open>
  Modelled from the spec: the enum \<open>ObjectType\<close> is declared in \<open>../types\<close>, which is not
  among the sources. The source compares \<open>obj.type\<close> with \<open>ObjectType.BLOCK\<close>,
  \<open>ObjectType.SPIKE\<close> and the nine portal members, and otherwise asks whether the string
  starts with \<open>PORTAL_\<close>. \<open>PORTAL_OTHER\<close> stands for a string with that prefix that is
  none of the nine, \<open>OTHER\<close> for every remaining string.
\<close>

datatype ObjectType =
    BLOCK | SPIKE
  | PORTAL_SHIP | PORTAL_BALL | PORTAL_UFO | PORTAL_WAVE | PORTAL_ROBOT
  | PORTAL_SPIDER | PORTAL_SWING | PORTAL_JETPACK | PORTAL_CUBE
  | PORTAL_OTHER | OTHER

record GameObject =
  ox :: real
  oy :: real
  otype :: ObjectType

record Player =
  px :: real
  py :: real
  vy :: real
  rotation :: real
  isDead :: bool
  isJumping :: bool
  mode :: PlayerMode
  gravityDir :: real

text \<open>
  What the audio and visual-effect calls of the source leave behind, in the order of the
  calls: \<open>playSound\<close>, \<open>triggerShake\<close> (intensity, scaleWithSpeed),
  \<open>addJumpParticles\<close>, the spider's teleport line (y1, y2 before the half-size offset),
  the portal flash and ring (hue), \<open>setTimeout(onGameOver)\<close> and \<open>onWin\<close>.
\<close>

datatype Event =
    SoundJump | SoundDeath | SoundPortal
  | Shake real bool
  | JumpParticles
  | TeleportLine real real
  | PortalFlash nat
  | PortalAnim real real nat
  | GameOver
  | Win

text \<open>
  The session: \<open>stateRef\<close> together with the refs the physics reads and writes
  (\<open>onSurfaceRef\<close>, \<open>robotJumpFrames\<close>, \<open>isJumpButtonPressed\<close>,
  \<open>actionBufferActive\<close>), the \<open>completion\<close> React state and the emitted events.
  The decaying effect state, the trail and the wall-clock time are render-only and are
  not part of the model.
\<close>

record Sim =
  player :: Player
  onSurface :: bool
  robotJumpFrames :: int
  isJumpButtonPressed :: bool
  actionBufferActive :: bool
  cameraX :: real
  completion :: real
  frame :: int
  events :: "Event list"

text \<open>
  The constants imported from \<open>../constants\<close>, which is not among the sources, are
  parameters of every operation.
\<close>

record Constants =
  PLAYER_SIZE :: real
  BLOCK_SIZE :: real
  GRAVITY :: real
  JUMP_FORCE :: real

definition SHIP_THRUST :: real where "SHIP_THRUST = - 0.65"
definition SHIP_GRAVITY :: real where "SHIP_GRAVITY = 0.40"
definition JETPACK_THRUST :: real where "JETPACK_THRUST = - 0.75"
definition JETPACK_GRAVITY :: real where "JETPACK_GRAVITY = 0.45"
definition BALL_GRAVITY :: real where "BALL_GRAVITY = 0.7"
definition UFO_GRAVITY :: real where "UFO_GRAVITY = 0.6"
definition UFO_JUMP :: real where "UFO_JUMP = - 9"
definition WAVE_SPEED_Y :: real where "WAVE_SPEED_Y = 6"
definition ROBOT_JUMP_INITIAL :: real where "ROBOT_JUMP_INITIAL = - 7"
definition ROBOT_JUMP_SUSTAIN :: real where "ROBOT_JUMP_SUSTAIN = - 0.8"
definition ROBOT_MAX_JUMP_FRAMES :: int where "ROBOT_MAX_JUMP_FRAMES = 12"
definition SWING_GRAVITY :: real where "SWING_GRAVITY = 0.5"
definition MAX_VY :: real where "MAX_VY = 12"
definition MIN_WIN_DISTANCE :: real where "MIN_WIN_DISTANCE = 3000"
definition CHUNK_SIZE :: real where "CHUNK_SIZE = 600"

section \<open>Geometry helpers\<close>

text \<open>
  \<open>pointInTriangle\<close>. With a zero area the source divides by zero: \<open>s\<close> and \<open>t\<close> are
  infinite or NaN and the conjunction of the three comparisons is false.
\<close>

definition pointInTriangle ::
  "real \<Rightarrow> real \<Rightarrow> real \<Rightarrow> real \<Rightarrow> real \<Rightarrow> real \<Rightarrow> real \<Rightarrow> real \<Rightarrow> bool" where
  "pointInTriangle ptx pty x1 y1 x2 y2 x3 y3 =
     (let area = 0.5 * (- y2 * x3 + y1 * (- x2 + x3) + x1 * (y2 - y3) + x2 * y3) in
      if area = 0 then False
      else
        let s = 1 / (2 * area) * (y1 * x3 - x1 * y3 + (y3 - y1) * ptx + (x1 - x3) * pty);
            t = 1 / (2 * area) * (x1 * y2 - y1 * x2 + (y1 - y2) * ptx + (x2 - x1) * pty)
        in s \<ge> 0 \<and> t \<ge> 0 \<and> (1 - s - t) \<ge> 0)"

fun getPortalHue :: "ObjectType \<Rightarrow> nat" where
  "getPortalHue PORTAL_SHIP = 0"
| "getPortalHue PORTAL_BALL = 30"
| "getPortalHue PORTAL_UFO = 120"
| "getPortalHue PORTAL_WAVE = 190"
| "getPortalHue PORTAL_ROBOT = 60"
| "getPortalHue PORTAL_SPIDER = 330"
| "getPortalHue PORTAL_SWING = 240"
| "getPortalHue PORTAL_JETPACK = 270"
| "getPortalHue _ = 300"

text \<open>\<open>obj.type.startsWith('PORTAL_')\<close>.\<close>

fun isPortal :: "ObjectType \<Rightarrow> bool" where
  "isPortal BLOCK = False"
| "isPortal SPIKE = False"
| "isPortal OTHER = False"
| "isPortal _ = True"

text \<open>The chain of assignments to \<open>s.player.mode\<close> in the portal branch.\<close>

fun portalMode :: "ObjectType \<Rightarrow> PlayerMode \<Rightarrow> PlayerMode" where
  "portalMode PORTAL_SHIP m = SHIP"
| "portalMode PORTAL_BALL m = BALL"
| "portalMode PORTAL_UFO m = UFO"
| "portalMode PORTAL_WAVE m = WAVE"
| "portalMode PORTAL_ROBOT m = ROBOT"
| "portalMode PORTAL_SPIDER m = SPIDER"
| "portalMode PORTAL_SWING m = SWING"
| "portalMode PORTAL_JETPACK m = JETPACK"
| "portalMode PORTAL_CUBE m = CUBE"
| "portalMode _ m = m"

text \<open>\<open>Math.atan2\<close> on reals (signed zeros apart).\<close>

definition atan2 :: "real \<Rightarrow> real \<Rightarrow> real" where
  "atan2 b a =
     (if a > 0 then arctan (b / a)
      else if a < 0 \<and> b \<ge> 0 then arctan (b / a) + pi
      else if a < 0 then arctan (b / a) - pi
      else if b > 0 then pi / 2
      else if b < 0 then - pi / 2
      else 0)"

section \<open>Spatial index\<close>

text \<open>
  The effect that builds \<open>chunksRef\<close>: every object is pushed to the list of the chunk
  \<open>Math.floor(obj.x / CHUNK_SIZE)\<close>, in the order of \<open>level.objects\<close>.
\<close>

definition chunkList :: "(int \<rightharpoonup> GameObject list) \<Rightarrow> int \<Rightarrow> GameObject list" where
  "chunkList chunks c = (case chunks c of None \<Rightarrow> [] | Some l \<Rightarrow> l)"

definition pushChunk :: "GameObject \<Rightarrow> (int \<rightharpoonup> GameObject list) \<Rightarrow> (int \<rightharpoonup> GameObject list)" where
  "pushChunk obj chunks =
     (let chunkId = \<lfloor>ox obj / CHUNK_SIZE\<rfloor> in chunks(chunkId \<mapsto> chunkList chunks chunkId @ [obj]))"

definition buildChunks :: "GameObject list \<Rightarrow> (int \<rightharpoonup> GameObject list)" where
  "buildChunks objs = fold pushChunk objs Map.empty"

text \<open>
  The candidate buffer: the chunks \<open>pChunk - 1\<close> to \<open>pChunk + 2\<close> of the player's x,
  concatenated in that order.
\<close>

definition gather :: "(int \<rightharpoonup> GameObject list) \<Rightarrow> real \<Rightarrow> GameObject list" where
  "gather chunks x =
     (let pChunk = \<lfloor>x / CHUNK_SIZE\<rfloor> in concat (map (chunkList chunks) [pChunk - 1 .. pChunk + 2]))"

section \<open>triggerInteraction\<close>

definition flipGravity :: "real \<Rightarrow> real" where
  "flipGravity g = (if g = 1 then - 1 else 1)"

definition addEvents :: "Event list \<Rightarrow> Sim \<Rightarrow> Sim" where
  "addEvents es s = s\<lparr>events := events s @ es\<rparr>"

text \<open>
  The inner loop of the spider's teleport scan at one height \<open>y\<close>: the first candidate
  block under or over the player's column whose surface the player would meet gives the
  new \<open>currentY\<close>.
\<close>

fun scanObjects :: "Constants \<Rightarrow> real \<Rightarrow> real \<Rightarrow> real \<Rightarrow> GameObject list \<Rightarrow> real option" where
  "scanObjects K x g y [] = None"
| "scanObjects K x g y (obj # rest) =
     (if otype obj = BLOCK \<and> x < ox obj + BLOCK_SIZE K \<and> x + PLAYER_SIZE K > ox obj then
        (if g = 1 \<and> y + PLAYER_SIZE K \<ge> oy obj \<and> y < oy obj then Some (oy obj - PLAYER_SIZE K)
         else if g = - 1 \<and> y \<le> oy obj + BLOCK_SIZE K \<and> y > oy obj then Some (oy obj + BLOCK_SIZE K)
         else scanObjects K x g y rest)
      else scanObjects K x g y rest)"

text \<open>
  The outer loop \<open>for (y = currentY + step; g === 1 ? y < 360 : y > 0; y += step)\<close>, started
  at its first \<open>y\<close>. The gravity direction has just been set to \<open>1\<close> or \<open>-1\<close> by the
  flip, so \<open>step = g * 5\<close> is \<open>5\<close> when \<open>g = 1\<close> and \<open>-5\<close> otherwise. The result is the
  \<open>currentY\<close> of the first hit, or \<open>None\<close> when the loop ends with \<open>found = false\<close>.
\<close>

function teleportScan :: "Constants \<Rightarrow> GameObject list \<Rightarrow> real \<Rightarrow> real \<Rightarrow> real \<Rightarrow> real option" where
  "teleportScan K cands x g y =
     (if (if g = 1 then y < 360 else y > 0) then
        (case scanObjects K x g y cands of
           Some cy \<Rightarrow> Some cy
         | None \<Rightarrow> teleportScan K cands x g (y + (if g = 1 then 5 else - 5)))
      else None)"
  by pat_completeness auto
termination
proof (relation "measure (\<lambda>(K, cands, x, g, y). if g = 1 then nat \<lceil>(360 - y) / 5\<rceil> else nat \<lceil>y / 5\<rceil>)")
  show "wf (measure (\<lambda>(K :: Constants, cands :: GameObject list, x :: real, g :: real, y :: real).
            if g = 1 then nat \<lceil>(360 - y) / 5\<rceil> else nat \<lceil>y / 5\<rceil>))"
    by simp
next
  fix K :: Constants and cands :: "GameObject list" and x g y :: real
  assume c: "if g = 1 then y < 360 else 0 < y"
  show "((K, cands, x, g, y + (if g = 1 then 5 else - 5)), (K, cands, x, g, y))
        \<in> measure (\<lambda>(K, cands, x, g, y). if g = 1 then nat \<lceil>(360 - y) / 5\<rceil> else nat \<lceil>y / 5\<rceil>)"
  proof (cases "g = 1")
    case True
    with c have "y < 360" by simp
    then have pos: "0 < \<lceil>(360 - y) / 5\<rceil>" by (simp add: ceiling_less_iff)
    have e: "(360 - (y + 5)) / 5 = (360 - y) / 5 - 1" by (simp add: field_simps)
    have "\<lceil>(360 - (y + 5)) / 5\<rceil> = \<lceil>(360 - y) / 5\<rceil> - 1" unfolding e by simp
    with pos True show ?thesis by simp
  next
    case False
    with c have "0 < y" by simp
    then have pos: "0 < \<lceil>y / 5\<rceil>" by (simp add: ceiling_less_iff)
    have e: "(y + - 5) / 5 = y / 5 - 1" by (simp add: field_simps)
    have "\<lceil>(y + - 5) / 5\<rceil> = \<lceil>y / 5\<rceil> - 1" unfolding e by simp
    with pos False show ?thesis by simp
  qed
qed

text \<open>
  \<open>triggerInteraction(isAutoJump)\<close>. \<open>paused\<close> is
  \<open>isPausedExternal || isLocalPaused || countdown !== null\<close>; \<open>speed\<close> is \<open>settings.speed\<close>,
  which \<open>triggerShake\<close> scales by.
\<close>

definition triggerInteraction ::
  "Constants \<Rightarrow> (int \<rightharpoonup> GameObject list) \<Rightarrow> bool \<Rightarrow> bool \<Rightarrow> Sim \<Rightarrow> Sim" where
  "triggerInteraction K chunks paused isAutoJump s =
     (let p = player s in
      if isDead p \<or> paused then s
      else if mode p = CUBE \<and> onSurface s then
        addEvents [SoundJump, JumpParticles]
          (s\<lparr>player := p\<lparr>vy := JUMP_FORCE K * gravityDir p, isJumping := True\<rparr>,
             onSurface := False\<rparr>)
      else if mode p = BALL \<and> onSurface s then
        addEvents [SoundJump]
          (s\<lparr>player := p\<lparr>gravityDir := flipGravity (gravityDir p), vy := 0\<rparr>,
             onSurface := False\<rparr>)
      else if mode p = UFO \<and> (\<not> isAutoJump \<or> onSurface s) then
        addEvents [SoundJump, JumpParticles]
          (s\<lparr>player := p\<lparr>vy := UFO_JUMP\<rparr>, onSurface := False\<rparr>)
      else if mode p = ROBOT \<and> onSurface s then
        addEvents [SoundJump, JumpParticles]
          (s\<lparr>player := p\<lparr>vy := ROBOT_JUMP_INITIAL * gravityDir p, isJumping := True\<rparr>,
             onSurface := False, robotJumpFrames := 1\<rparr>)
      else if mode p = SWING \<and> (\<not> isAutoJump \<or> onSurface s) then
        addEvents [SoundJump]
          (s\<lparr>player := p\<lparr>gravityDir := flipGravity (gravityDir p)\<rparr>, onSurface := False\<rparr>)
      else if mode p = SPIDER \<and> onSurface s then
        (let oldY = py p;
             g = flipGravity (gravityDir p);
             candidates = gather chunks (px p);
             currentY = (case teleportScan K candidates (px p) g (oldY + (if g = 1 then 5 else - 5)) of
                           Some cy \<Rightarrow> cy
                         | None \<Rightarrow> (if g = 1 then 360 else 0))
         in addEvents [SoundJump, TeleportLine oldY currentY, Shake 6 True]
              (s\<lparr>player := p\<lparr>gravityDir := g, vy := 0, py := currentY\<rparr>, onSurface := True\<rparr>))
      else s)"

section \<open>update: the frame's velocity\<close>

text \<open>\<open>steps = Math.max(1, Math.ceil(settings.speed / 4))\<close> and the two displacements.\<close>

definition steps :: "real \<Rightarrow> int" where
  "steps speed = max 1 \<lceil>speed / 4\<rceil>"

definition stepX :: "real \<Rightarrow> real" where
  "stepX speed = speed / real_of_int (steps speed)"

definition stepY :: "real \<Rightarrow> real \<Rightarrow> real" where
  "stepY speed v = v / real_of_int (steps speed)"

text \<open>
  Whether the Robot branch adds the sustain acceleration this frame: the condition of the
  inner \<open>if\<close> of the Cube/Robot/Spider branch.
\<close>

definition robotSustain :: "Sim \<Rightarrow> bool" where
  "robotSustain s =
     (mode (player s) = ROBOT \<and> isJumpButtonPressed s \<and> robotJumpFrames s > 0
      \<and> robotJumpFrames s < ROBOT_MAX_JUMP_FRAMES)"

text \<open>\<open>frameVy\<close> after the chain over the modes, before the clamp to \<open>MAX_VY\<close>.\<close>

definition rawFrameVy :: "Constants \<Rightarrow> Sim \<Rightarrow> real" where
  "rawFrameVy K s =
     (let p = player s; frameVy = vy p in
      if mode p = CUBE \<or> mode p = ROBOT \<or> mode p = SPIDER then
        (if robotSustain s then frameVy + ROBOT_JUMP_SUSTAIN * gravityDir p else frameVy)
          + GRAVITY K * gravityDir p
      else if mode p = SHIP \<or> mode p = SWING \<or> mode p = JETPACK then
        (if mode p = SHIP then frameVy + (SHIP_GRAVITY + (if isJumpButtonPressed s then SHIP_THRUST else 0))
         else if mode p = JETPACK then
           frameVy + (JETPACK_GRAVITY + (if isJumpButtonPressed s then JETPACK_THRUST else 0))
         else frameVy + SWING_GRAVITY * gravityDir p)
      else if mode p = BALL then frameVy + BALL_GRAVITY * gravityDir p
      else if mode p = UFO then frameVy + UFO_GRAVITY
      else if mode p = WAVE then (if isJumpButtonPressed s then - WAVE_SPEED_Y else WAVE_SPEED_Y)
      else frameVy)"

text \<open>The counter \<open>robotJumpFrames\<close> after the same chain.\<close>

definition nextRobotJumpFrames :: "Sim \<Rightarrow> int" where
  "nextRobotJumpFrames s =
     (let p = player s in
      if mode p = CUBE \<or> mode p = ROBOT \<or> mode p = SPIDER then
        (if robotSustain s then robotJumpFrames s + 1 else 0)
      else robotJumpFrames s)"

definition clampVy :: "real \<Rightarrow> real" where
  "clampVy v = (let v1 = (if v > MAX_VY then MAX_VY else v) in if v1 < - MAX_VY then - MAX_VY else v1)"

text \<open>The state after \<open>s.player.vy = frameVy\<close>.\<close>

definition applyVelocity :: "Constants \<Rightarrow> Sim \<Rightarrow> Sim" where
  "applyVelocity K s =
     s\<lparr>player := (player s)\<lparr>vy := clampVy (rawFrameVy K s)\<rparr>,
       robotJumpFrames := nextRobotJumpFrames s\<rparr>"

section \<open>update: one sub-step\<close>

text \<open>The rotation of the sub-step, by mode; Robot and Spider have no branch.\<close>

definition rotateStep :: "real \<Rightarrow> bool \<Rightarrow> Player \<Rightarrow> Player" where
  "rotateStep speed held p =
     (let n = real_of_int (steps speed) in
      if mode p = CUBE then
        (if isJumping p then p\<lparr>rotation := rotation p + (0.15 / n) * gravityDir p\<rparr>
         else
           let targetRotation = real_of_int (round (rotation p / (pi / 2))) * (pi / 2)
           in p\<lparr>rotation := rotation p + (targetRotation - rotation p) * 0.2\<rparr>)
      else if mode p = SHIP \<or> mode p = SWING \<or> mode p = JETPACK \<or> mode p = UFO then
        (let targetRot = atan2 (vy p) (speed * (if mode p = UFO then 2 else 1.8))
         in p\<lparr>rotation := rotation p + (targetRot - rotation p) * 0.2\<rparr>)
      else if mode p = BALL then p\<lparr>rotation := rotation p + (0.2 / n) * gravityDir p\<rparr>
      else if mode p = WAVE then p\<lparr>rotation := (if held then - pi / 4 else pi / 4)\<rparr>
      else p)"

text \<open>The clamp of \<open>y\<close> to the world: floor at 360, ceiling at 0.\<close>

definition clampWorld :: "Sim \<Rightarrow> Sim" where
  "clampWorld s =
     (let p = player s in
      if py p \<ge> 360 then s\<lparr>player := p\<lparr>py := 360, vy := 0, isJumping := False\<rparr>, onSurface := True\<rparr>
      else if py p \<le> 0 then s\<lparr>player := p\<lparr>py := 0, vy := 0, isJumping := False\<rparr>, onSurface := True\<rparr>
      else s)"

text \<open>
  The move of a sub-step, up to the collision loop: advance, rotate, clamp. \<open>sy\<close> is the
  frame's \<open>stepY\<close>, computed once before the loop.
\<close>

definition moveStep :: "real \<Rightarrow> real \<Rightarrow> Sim \<Rightarrow> Sim" where
  "moveStep speed sy s =
     (let p = player s;
          p1 = p\<lparr>px := px p + stepX speed, py := py p + sy\<rparr>
      in clampWorld (s\<lparr>player := rotateStep speed (isJumpButtonPressed s) p1\<rparr>))"

text \<open>
  The body of the loop over the collision buffer either falls through to the next object
  or leaves the loop with \<open>break\<close>.
\<close>

datatype Flow = Continue Sim | Break Sim

fun flowState :: "Flow \<Rightarrow> Sim" where
  "flowState (Continue s) = s"
| "flowState (Break s) = s"

text \<open>The four statements of every death branch.\<close>

definition kill :: "Sim \<Rightarrow> Sim" where
  "kill s = addEvents [Shake 22 False, SoundDeath, GameOver] (s\<lparr>player := (player s)\<lparr>isDead := True\<rparr>\<rparr>)"

definition spikeHit :: "Constants \<Rightarrow> real \<Rightarrow> real \<Rightarrow> GameObject \<Rightarrow> bool" where
  "spikeHit K phX phY obj =
     (let phW = PLAYER_SIZE K - 8; phH = PLAYER_SIZE K - 8;
          shrink = 8;
          x1 = ox obj + shrink; y1 = oy obj + BLOCK_SIZE K - 2;
          x2 = ox obj + BLOCK_SIZE K / 2; y2 = oy obj + shrink;
          x3 = ox obj + BLOCK_SIZE K - shrink; y3 = oy obj + BLOCK_SIZE K - 2;
          corners = [(phX, phY), (phX + phW, phY), (phX, phY + phH), (phX + phW, phY + phH)]
      in list_ex (\<lambda>(cx, cy). pointInTriangle cx cy x1 y1 x2 y2 x3 y3) corners)"

definition blockOverlap :: "Constants \<Rightarrow> Player \<Rightarrow> GameObject \<Rightarrow> bool" where
  "blockOverlap K p obj =
     (px p < ox obj + BLOCK_SIZE K \<and> px p + PLAYER_SIZE K > ox obj
      \<and> py p < oy obj + BLOCK_SIZE K \<and> py p + PLAYER_SIZE K > oy obj)"

definition portalOverlap :: "Constants \<Rightarrow> Player \<Rightarrow> GameObject \<Rightarrow> bool" where
  "portalOverlap K p obj =
     (let portalCollisionHeight = 150;
          portalY = oy obj + BLOCK_SIZE K / 2 - portalCollisionHeight / 2
      in px p < ox obj + BLOCK_SIZE K \<and> px p + PLAYER_SIZE K > ox obj
         \<and> py p < portalY + portalCollisionHeight \<and> py p + PLAYER_SIZE K > portalY)"

text \<open>Landing on top of a block, and hanging below it.\<close>

definition landOn :: "Constants \<Rightarrow> GameObject \<Rightarrow> Sim \<Rightarrow> Sim" where
  "landOn K obj s =
     s\<lparr>player := (player s)\<lparr>py := oy obj - PLAYER_SIZE K, vy := 0, isJumping := False\<rparr>,
       onSurface := True\<rparr>"

definition hangBelow :: "Constants \<Rightarrow> GameObject \<Rightarrow> Sim \<Rightarrow> Sim" where
  "hangBelow K obj s =
     s\<lparr>player := (player s)\<lparr>py := oy obj + BLOCK_SIZE K, vy := 0, isJumping := False\<rparr>,
       onSurface := True\<rparr>"

text \<open>The body of a triggered portal: the mode, and what follows when it changed.\<close>

definition enterPortal :: "Constants \<Rightarrow> GameObject \<Rightarrow> Sim \<Rightarrow> Sim" where
  "enterPortal K obj s =
     (let prevMode = mode (player s);
          s1 = s\<lparr>player := (player s)\<lparr>mode := portalMode (otype obj) prevMode\<rparr>\<rparr>
      in if prevMode \<noteq> mode (player s1) then
           addEvents [SoundPortal, Shake 12 True, PortalFlash (getPortalHue (otype obj)),
                      PortalAnim (ox obj + BLOCK_SIZE K / 2) (oy obj + BLOCK_SIZE K / 2)
                        (getPortalHue (otype obj))]
             (s1\<lparr>player := (player s1)\<lparr>gravityDir := 1\<rparr>\<rparr>)
         else s1)"

text \<open>
  The body of \<open>for (const obj of collisionBufferRef.current)\<close> for one object.
  \<open>prevX\<close> is the player's x before the frame's sub-steps, \<open>internalPrevY\<close> the y
  before this sub-step's move. \<open>phX\<close> and \<open>phY\<close> are the corner of the shrunk hit box,
  computed once before the loop from the moved and clamped player: the spike test reads
  them, whereas the block and portal tests read the player as the loop has left it.
\<close>

definition collideObj ::
  "Constants \<Rightarrow> real \<Rightarrow> real \<Rightarrow> real \<Rightarrow> real \<Rightarrow> Sim \<Rightarrow> GameObject \<Rightarrow> Flow" where
  "collideObj K prevX internalPrevY phX phY s obj =
     (let p = player s in
      if otype obj = SPIKE then
        (if spikeHit K phX phY obj then Break (kill s) else Continue s)
      else if otype obj = BLOCK then
        (if blockOverlap K p obj then
           (if mode p = WAVE then Break (kill s)
            else
              let tolerance = 12;
                  wasAbove = (internalPrevY + PLAYER_SIZE K \<le> oy obj + tolerance);
                  wasBelow = (internalPrevY \<ge> oy obj + BLOCK_SIZE K - tolerance)
              in if wasAbove \<and> vy p * gravityDir p \<ge> 0 \<and> gravityDir p = 1 then
                   Continue (landOn K obj s)
                 else if wasBelow \<and> vy p * gravityDir p \<ge> 0 \<and> gravityDir p = - 1 then
                   Continue (hangBelow K obj s)
                 else Break (kill s))
         else Continue s)
      else if isPortal (otype obj) then
        (if portalOverlap K p obj then
           (if prevX + PLAYER_SIZE K \<le> ox obj + 15 then Continue (enterPortal K obj s)
            else Continue s)
         else Continue s)
      else Continue s)"

text \<open>The loop over the collision buffer, in the buffer's order.\<close>

fun collideAll ::
  "Constants \<Rightarrow> real \<Rightarrow> real \<Rightarrow> real \<Rightarrow> real \<Rightarrow> Sim \<Rightarrow> GameObject list \<Rightarrow> Sim" where
  "collideAll K prevX internalPrevY phX phY s [] = s"
| "collideAll K prevX internalPrevY phX phY s (obj # rest) =
     (case collideObj K prevX internalPrevY phX phY s obj of
        Break s' \<Rightarrow> s'
      | Continue s' \<Rightarrow> collideAll K prevX internalPrevY phX phY s' rest)"

text \<open>One pass of the body of \<open>for (let st = 0; st < steps; st++)\<close> after its guard.\<close>

definition subStep ::
  "Constants \<Rightarrow> (int \<rightharpoonup> GameObject list) \<Rightarrow> real \<Rightarrow> real \<Rightarrow> real \<Rightarrow> Sim \<Rightarrow> Sim" where
  "subStep K chunks speed prevX sy s =
     (let internalPrevY = py (player s);
          s1 = moveStep speed sy s;
          phX = px (player s1) + 4;
          phY = py (player s1) + 4
      in collideAll K prevX internalPrevY phX phY s1 (gather chunks (px (player s1))))"

text \<open>The sub-step loop: \<open>n\<close> passes are left; a dead player ends it.\<close>

fun subSteps ::
  "Constants \<Rightarrow> (int \<rightharpoonup> GameObject list) \<Rightarrow> real \<Rightarrow> real \<Rightarrow> real \<Rightarrow> nat \<Rightarrow> Sim \<Rightarrow> Sim" where
  "subSteps K chunks speed prevX sy 0 s = s"
| "subSteps K chunks speed prevX sy (Suc n) s =
     (if isDead (player s) then s
      else subSteps K chunks speed prevX sy n (subStep K chunks speed prevX sy s))"

section \<open>update: the frame\<close>

text \<open>\<open>lastObjX\<close> and \<open>winX\<close>, computed from the level when the effect is set up.\<close>

definition lastObjX :: "GameObject list \<Rightarrow> real" where
  "lastObjX objs = foldl (\<lambda>m obj. max m (ox obj)) 0 objs"

definition winX :: "GameObject list \<Rightarrow> real" where
  "winX objs = max MIN_WIN_DISTANCE (lastObjX objs + 1000)"

text \<open>The physics of a frame: from \<open>prevX\<close> to the end of the sub-step loop.\<close>

definition physics :: "Constants \<Rightarrow> GameObject list \<Rightarrow> real \<Rightarrow> Sim \<Rightarrow> Sim" where
  "physics K objs speed s =
     (let prevX = px (player s);
          s1 = applyVelocity K s;
          sy = stepY speed (vy (player s1))
      in subSteps K (buildChunks objs) speed prevX sy (nat (steps speed)) s1)"

text \<open>The end of the frame: camera, completion, the held-button interaction, the win.\<close>

definition autoJump :: "Constants \<Rightarrow> GameObject list \<Rightarrow> Sim \<Rightarrow> Sim" where
  "autoJump K objs s =
     (if isJumpButtonPressed s \<and> onSurface s \<and> \<not> actionBufferActive s then
        (triggerInteraction K (buildChunks objs) False True s)\<lparr>actionBufferActive := True\<rparr>
      else if \<not> onSurface s then s\<lparr>actionBufferActive := False\<rparr>
      else s)"

definition finishFrame :: "Constants \<Rightarrow> GameObject list \<Rightarrow> Sim \<Rightarrow> Sim" where
  "finishFrame K objs s =
     (let s1 = s\<lparr>cameraX := px (player s) - 150,
                completion := min 100 ((px (player s) / winX objs) * 100)\<rparr>;
          s2 = autoJump K objs s1
      in if px (player s2) > winX objs then addEvents [Win] s2 else s2)"

text \<open>
  \<open>update\<close>. \<open>paused\<close> is \<open>isPausedExternal || isLocalPaused || countdown !== null\<close>.
\<close>

definition update :: "Constants \<Rightarrow> GameObject list \<Rightarrow> real \<Rightarrow> bool \<Rightarrow> Sim \<Rightarrow> Sim" where
  "update K objs speed paused s =
     (if paused then s
      else
        let s1 = s\<lparr>frame := frame s + 1\<rparr>
        in if isDead (player s1) then s1
           else finishFrame K objs (physics K objs speed s1))"

section \<open>Input handlers\<close>





section \<open>Concrete inputs\<close>

text \<open>
  A valuation of the constants, used only to evaluate the operations on concrete inputs.
  \<open>PLAYER_SIZE = 40\<close> agrees with the floor line that \<open>draw\<close> puts at 400 under the
  resting height 360, \<open>BLOCK_SIZE = 40\<close> with the 40 unit grid of the generated levels;
  \<open>GRAVITY\<close> and \<open>JUMP_FORCE\<close> are sample values.
\<close>

definition sampleConstants :: Constants where
  "sampleConstants = \<lparr>PLAYER_SIZE = 40, BLOCK_SIZE = 40, GRAVITY = 0.6, JUMP_FORCE = - 10\<rparr>"

text \<open>The initial value of \<open>stateRef\<close> and of the refs.\<close>

definition startPlayer :: Player where
  "startPlayer = \<lparr>px = 50, py = 360, vy = 0, rotation = 0, isDead = False, isJumping = False,
                  mode = CUBE, gravityDir = 1\<rparr>"

definition startSim :: Sim where
  "startSim = \<lparr>player = startPlayer, onSurface = False, robotJumpFrames = 0,
               isJumpButtonPressed = False, actionBufferActive = False, cameraX = 0,
               completion = 0, frame = 0, events = []\<rparr>"


definition simOf :: "Player \<Rightarrow> Sim" where
  "simOf p = startSim\<lparr>player := p\<rparr>"

definition mkObject :: "ObjectType \<Rightarrow> real \<Rightarrow> real \<Rightarrow> GameObject" where
  "mkObject t a b = \<lparr>ox = a, oy = b, otype = t\<rparr>"



text \<open>
  A Cube falling onto a block with a second block standing beside the landing place, one
  tile to the right and fifty units higher.
\<close>

definition landingBlock :: GameObject where "landingBlock = mkObject BLOCK 60 320"

definition wallBlock :: GameObject where "wallBlock = mkObject BLOCK 100 270"

definition fallingCube :: Sim where
  "fallingCube = simOf (startPlayer\<lparr>px := 58.5, py := 280, vy := 5\<rparr>)"

text \<open>
  A Swing player in mid-air, a Ball under inverted gravity, a Cube one unit before the win
  line, a Cube whose right edge is 25 units past a portal's left edge.
\<close>

definition swingPlayer :: Sim where
  "swingPlayer = simOf (startPlayer\<lparr>py := 200, mode := SWING\<rparr>)"

definition invertedBall :: Sim where
  "invertedBall = simOf (startPlayer\<lparr>py := 100, mode := BALL, gravityDir := - 1\<rparr>)"

definition nearWin :: Sim where
  "nearWin = (simOf (startPlayer\<lparr>px := 2999\<rparr>))\<lparr>onSurface := True\<rparr>"

definition straddlingCube :: Sim where
  "straddlingCube = (simOf (startPlayer\<lparr>px := 65\<rparr>))\<lparr>onSurface := True\<rparr>"



definition groundBlock :: GameObject where "groundBlock = mkObject BLOCK 200 320"

text \<open>
  A Cube about to land on the block of the first example at one sub-step per frame, and two
  spikes: one beside the landing place that the falling Cube's box reaches, one above it
  that only the landed Cube's box would reach.
\<close>

definition slowCube :: Sim where
  "slowCube = simOf (startPlayer\<lparr>px := 58.5, py := 280, vy := 4.4\<rparr>)"

definition sideSpike :: GameObject where "sideSpike = mkObject SPIKE 88 284"

definition highSpike :: GameObject where "highSpike = mkObject SPIKE 80 248"

text \<open>
  Cubes above the block that stands on the floor line: one sub-step before landing, one
  frame before landing, and one that comes in too low.
\<close>

definition landingCube :: Sim where
  "landingCube = simOf (startPlayer\<lparr>px := 187.5, py := 280, vy := 5\<rparr>)"

definition cubeAbove :: Sim where
  "cubeAbove = simOf (startPlayer\<lparr>px := 185, py := 275, vy := 9.4\<rparr>)"

definition lateCube :: Sim where
  "lateCube = simOf (startPlayer\<lparr>px := 187.5, py := 295, vy := 5\<rparr>)"


section \<open>Observing a frame\<close>

text \<open>The events a step from \<open>s\<close> to \<open>t\<close> has added.\<close>

definition newEvents :: "Sim \<Rightarrow> Sim \<Rightarrow> Event list" where
  "newEvents s t = drop (length (events s)) (events t)"

text \<open>
  A step that only appends events, emits neither a jump sound nor a win, and changes the
  gravity direction only together with a portal sound.
\<close>

definition quietStep :: "Sim \<Rightarrow> Sim \<Rightarrow> bool" where
  "quietStep s t =
     (events t = events s @ newEvents s t
      \<and> Win \<notin> set (newEvents s t) \<and> SoundJump \<notin> set (newEvents s t)
      \<and> (gravityDir (player t) = gravityDir (player s) \<or> SoundPortal \<in> set (newEvents s t)))"





text \<open>
  No portal of the level is ahead of the player: for each of them the player's right edge
  is already more than 15 units past the portal's left edge.
\<close>

definition noPortalAhead :: "Constants \<Rightarrow> real \<Rightarrow> GameObject list \<Rightarrow> bool" where
  "noPortalAhead K prevX objs =
     list_all (\<lambda>obj. if isPortal (otype obj) then \<not> prevX + PLAYER_SIZE K \<le> ox obj + 15 else True) objs"

section \<open>Evaluation rules\<close>

named_theorems game_consts \<open>the numeric constants of GameCanvas\<close>

lemmas game_consts_defs [game_consts] =
  SHIP_THRUST_def SHIP_GRAVITY_def JETPACK_THRUST_def JETPACK_GRAVITY_def BALL_GRAVITY_def
  UFO_GRAVITY_def UFO_JUMP_def WAVE_SPEED_Y_def ROBOT_JUMP_INITIAL_def ROBOT_JUMP_SUSTAIN_def
  ROBOT_MAX_JUMP_FRAMES_def SWING_GRAVITY_def MAX_VY_def MIN_WIN_DISTANCE_def CHUNK_SIZE_def

lemmas sample_defs = sampleConstants_def startPlayer_def startSim_def simOf_def mkObject_def

lemmas run_defs = update_def physics_def finishFrame_def autoJump_def triggerInteraction_def
  applyVelocity_def rawFrameVy_def nextRobotJumpFrames_def robotSustain_def clampVy_def
  subStep_def moveStep_def rotateStep_def clampWorld_def steps_def stepX_def stepY_def
  winX_def lastObjX_def addEvents_def Let_def

lemmas level_eval = buildChunks_def pushChunk_def chunkList_def gather_def collideObj_def
  blockOverlap_def portalOverlap_def spikeHit_def pointInTriangle_def landOn_def hangBelow_def
  kill_def enterPortal_def numeral_2_eq_2 upto.simps

lemma gather_empty: "gather Map.empty x = []"
  by (simp add: gather_def chunkList_def Let_def)

lemma buildChunks_Nil: "buildChunks [] = Map.empty"
  by (simp add: buildChunks_def)

section \<open>Facts about the spatial index and the loops\<close>

lemma chunkList_fold_filter:
  "chunkList (fold pushChunk objs m) c
     = chunkList m c @ filter (\<lambda>obj. \<lfloor>ox obj / CHUNK_SIZE\<rfloor> = c) objs"
proof (induction objs arbitrary: m)
  case Nil
  then show ?case by simp
next
  case (Cons obj objs)
  have "chunkList (pushChunk obj m) c
          = chunkList m c @ (if \<lfloor>ox obj / CHUNK_SIZE\<rfloor> = c then [obj] else [])"
    by (simp add: pushChunk_def chunkList_def Let_def)
  with Cons.IH [of "pushChunk obj m"] show ?case by simp
qed

lemma chunkList_buildChunks_filter:
  "chunkList (buildChunks objs) c = filter (\<lambda>obj. \<lfloor>ox obj / CHUNK_SIZE\<rfloor> = c) objs"
  by (simp add: buildChunks_def chunkList_fold_filter) (simp add: chunkList_def)

lemma gather_buildChunks:
  "gather (buildChunks objs) x =
     concat (map (\<lambda>c. filter (\<lambda>obj. \<lfloor>ox obj / CHUNK_SIZE\<rfloor> = c) objs)
                 [\<lfloor>x / CHUNK_SIZE\<rfloor> - 1 .. \<lfloor>x / CHUNK_SIZE\<rfloor> + 2])"
  unfolding gather_def Let_def by (rule arg_cong [where f = concat]) (simp add: chunkList_buildChunks_filter)

lemma chunkList_fold_subset:
  assumes "\<And>c. set (chunkList m c) \<subseteq> A"
  shows "set (chunkList (fold pushChunk objs m) c) \<subseteq> A \<union> set objs"
  using assms
proof (induction objs arbitrary: m A)
  case Nil
  then show ?case by simp
next
  case (Cons obj objs)
  have "\<And>c. set (chunkList (pushChunk obj m) c) \<subseteq> insert obj A"
    using Cons.prems by (auto simp: pushChunk_def chunkList_def Let_def split: option.splits if_splits)
  from Cons.IH [OF this] show ?case by auto
qed

lemma chunkList_buildChunks: "set (chunkList (buildChunks objs) c) \<subseteq> set objs"
  using chunkList_fold_subset [of Map.empty "{}" objs c]
  by (simp add: buildChunks_def chunkList_def)

lemma gather_subset: "set (gather (buildChunks objs) x) \<subseteq> set objs"
  using chunkList_buildChunks by (fastforce simp: gather_def Let_def)

lemma overlapping_chunk:
  assumes "x < a + b" and "x + w > a" and "0 \<le> b" and "b \<le> CHUNK_SIZE" and "0 \<le> w" and "w \<le> CHUNK_SIZE"
  shows "\<lfloor>x / CHUNK_SIZE\<rfloor> - 1 \<le> \<lfloor>a / CHUNK_SIZE\<rfloor> \<and> \<lfloor>a / CHUNK_SIZE\<rfloor> \<le> \<lfloor>x / CHUNK_SIZE\<rfloor> + 2"
proof -
  have lo: "x / CHUNK_SIZE - 1 \<le> a / CHUNK_SIZE"
    using assms by (simp add: CHUNK_SIZE_def field_simps)
  have hi: "a / CHUNK_SIZE \<le> x / CHUNK_SIZE + 1"
    using assms by (simp add: CHUNK_SIZE_def field_simps)
  from floor_mono [OF lo] floor_mono [OF hi] show ?thesis by simp
qed

lemma overlapping_gathered:
  assumes "obj \<in> set objs"
    and "x < ox obj + BLOCK_SIZE K" and "x + PLAYER_SIZE K > ox obj"
    and "0 \<le> BLOCK_SIZE K" and "BLOCK_SIZE K \<le> CHUNK_SIZE"
    and "0 \<le> PLAYER_SIZE K" and "PLAYER_SIZE K \<le> CHUNK_SIZE"
  shows "obj \<in> set (gather (buildChunks objs) x)"
proof -
  have "\<lfloor>ox obj / CHUNK_SIZE\<rfloor> \<in> set [\<lfloor>x / CHUNK_SIZE\<rfloor> - 1 .. \<lfloor>x / CHUNK_SIZE\<rfloor> + 2]"
    using overlapping_chunk [OF assms(2-7)] by simp
  with assms(1) show ?thesis
    unfolding gather_buildChunks by auto
qed

lemma collideObj_Break:
  "collideObj K prevX ipy phX phY s obj = Break s' \<Longrightarrow> s' = kill s"
  by (auto simp: collideObj_def Let_def split: if_splits)

lemma isDead_kill: "isDead (player (kill s))"
  by (simp add: kill_def addEvents_def)

lemma collideObj_Continue_isDead:
  "collideObj K prevX ipy phX phY s obj = Continue s' \<Longrightarrow> isDead (player s') = isDead (player s)"
  by (auto simp: collideObj_def landOn_def hangBelow_def enterPortal_def addEvents_def Let_def
      split: if_splits)

lemma collideObj_cases:
  "collideObj K prevX ipy phX phY s obj = Continue s
   \<or> collideObj K prevX ipy phX phY s obj = Continue (landOn K obj s)
   \<or> collideObj K prevX ipy phX phY s obj = Continue (hangBelow K obj s)
   \<or> collideObj K prevX ipy phX phY s obj = Break (kill s)
   \<or> collideObj K prevX ipy phX phY s obj = Continue (enterPortal K obj s)"
  by (simp add: collideObj_def Let_def)

lemma collideAll_append:
  assumes "\<not> isDead (player t)"
  shows "collideAll K prevX ipy phX phY t (xs @ ys) =
           (if isDead (player (collideAll K prevX ipy phX phY t xs))
            then collideAll K prevX ipy phX phY t xs
            else collideAll K prevX ipy phX phY (collideAll K prevX ipy phX phY t xs) ys)"
  using assms
proof (induction xs arbitrary: t)
  case Nil
  then show ?case by simp
next
  case (Cons a xs)
  show ?case
  proof (cases "collideObj K prevX ipy phX phY t a")
    case (Continue u)
    then have "\<not> isDead (player u)"
      using Cons.prems collideObj_Continue_isDead by blast
    from Cons.IH [OF this] Continue show ?thesis by simp
  next
    case (Break u)
    then have "isDead (player u)"
      using collideObj_Break isDead_kill by blast
    with Break show ?thesis by simp
  qed
qed

lemma isDead_moveStep: "isDead (player (moveStep speed sy s)) = isDead (player s)"
  by (simp add: moveStep_def clampWorld_def rotateStep_def Let_def)

lemma collideAll_inv:
  assumes "I s"
    and "\<And>t obj. obj \<in> set cands \<Longrightarrow> I t \<Longrightarrow> I (flowState (collideObj K prevX ipy phX phY t obj))"
  shows "I (collideAll K prevX ipy phX phY s cands)"
  using assms
proof (induction cands arbitrary: s)
  case Nil
  then show ?case by simp
next
  case (Cons obj cands)
  have step: "I (flowState (collideObj K prevX ipy phX phY s obj))"
    using Cons.prems by simp
  show ?case
  proof (cases "collideObj K prevX ipy phX phY s obj")
    case (Continue t)
    with step have "I t" by simp
    then have "I (collideAll K prevX ipy phX phY t cands)"
      using Cons.IH Cons.prems(2) by simp
    with Continue show ?thesis by simp
  next
    case (Break t)
    with step show ?thesis by simp
  qed
qed

lemma subSteps_inv:
  assumes "I s"
    and "\<And>t. I t \<Longrightarrow> \<not> isDead (player t) \<Longrightarrow> I (subStep K chunks speed prevX sy t)"
  shows "I (subSteps K chunks speed prevX sy n s)"
  using assms by (induction n arbitrary: s) simp_all

section \<open>Events and gravity through a frame\<close>

lemma quietStepI:
  assumes "events t = events s @ es" and "Win \<notin> set es" and "SoundJump \<notin> set es"
    and "gravityDir (player t) = gravityDir (player s) \<or> SoundPortal \<in> set es"
  shows "quietStep s t"
  using assms by (simp add: quietStep_def newEvents_def)

lemma quietStep_refl: "quietStep s s"
  by (rule quietStepI [where es = "[]"]) simp_all

lemma quietStep_trans:
  assumes "quietStep s t" and "quietStep t u"
  shows "quietStep s u"
proof (rule quietStepI [where es = "newEvents s t @ newEvents t u"])
  show "events u = events s @ newEvents s t @ newEvents t u"
    using assms by (simp add: quietStep_def)
  show "Win \<notin> set (newEvents s t @ newEvents t u)"
    using assms by (simp add: quietStep_def)
  show "SoundJump \<notin> set (newEvents s t @ newEvents t u)"
    using assms by (simp add: quietStep_def)
  show "gravityDir (player u) = gravityDir (player s) \<or> SoundPortal \<in> set (newEvents s t @ newEvents t u)"
    using assms by (auto simp: quietStep_def)
qed

lemma quietStep_applyVelocity: "quietStep s (applyVelocity K s)"
  by (rule quietStepI [where es = "[]"]) (simp_all add: applyVelocity_def)

lemma gravityDir_triggerInteraction:
  "gravityDir (player (triggerInteraction K chunks paused isAutoJump s)) \<noteq> gravityDir (player s)
   \<Longrightarrow> (mode (player s) = BALL \<or> mode (player s) = SPIDER \<or> mode (player s) = SWING)
       \<and> gravityDir (player (triggerInteraction K chunks paused isAutoJump s))
           = flipGravity (gravityDir (player s))
       \<and> mode (player (triggerInteraction K chunks paused isAutoJump s)) = mode (player s)"
  by (simp add: triggerInteraction_def addEvents_def Let_def split: if_splits)

lemma gravityDir_collideObj:
  "gravityDir (player (flowState (collideObj K prevX ipy phX phY s obj))) \<noteq> gravityDir (player s)
   \<Longrightarrow> isPortal (otype obj)
       \<and> mode (player (flowState (collideObj K prevX ipy phX phY s obj))) \<noteq> mode (player s)
       \<and> gravityDir (player (flowState (collideObj K prevX ipy phX phY s obj))) = 1"
  by (simp add: collideObj_def landOn_def hangBelow_def kill_def enterPortal_def addEvents_def Let_def
      split: if_splits)

lemma gravityDir_rotateStep: "gravityDir (rotateStep speed held p) = gravityDir p"
  by (simp add: rotateStep_def Let_def)

lemma gravityDir_moveStep: "gravityDir (player (moveStep speed sy s)) = gravityDir (player s)"
  by (simp add: moveStep_def clampWorld_def Let_def gravityDir_rotateStep)

lemma gravityDir_applyVelocity: "gravityDir (player (applyVelocity K s)) = gravityDir (player s)"
  by (simp add: applyVelocity_def)

lemma events_moveStep: "events (moveStep speed sy s) = events s"
  by (simp add: moveStep_def clampWorld_def Let_def)

lemma quietStep_moveStep: "quietStep s (moveStep speed sy s)"
  by (rule quietStepI [where es = "[]"]) (simp_all add: events_moveStep gravityDir_moveStep)

lemma quietStep_collideObj: "quietStep s (flowState (collideObj K prevX ipy phX phY s obj))"
proof -
  consider (same) "flowState (collideObj K prevX ipy phX phY s obj) = s"
    | (land) "flowState (collideObj K prevX ipy phX phY s obj) = landOn K obj s"
    | (hang) "flowState (collideObj K prevX ipy phX phY s obj) = hangBelow K obj s"
    | (dead) "flowState (collideObj K prevX ipy phX phY s obj) = kill s"
    | (portal) "flowState (collideObj K prevX ipy phX phY s obj) = enterPortal K obj s"
    using collideObj_cases [of K prevX ipy phX phY s obj] by auto
  then show ?thesis
  proof cases
    case same
    then show ?thesis by (simp add: quietStep_refl)
  next
    case land
    show ?thesis unfolding land
      by (rule quietStepI [where es = "[]"]) (simp_all add: landOn_def)
  next
    case hang
    show ?thesis unfolding hang
      by (rule quietStepI [where es = "[]"]) (simp_all add: hangBelow_def)
  next
    case dead
    show ?thesis unfolding dead
      by (rule quietStepI [where es = "[Shake 22 False, SoundDeath, GameOver]"])
        (simp_all add: kill_def addEvents_def)
  next
    case portal
    show ?thesis
    proof (cases "portalMode (otype obj) (mode (player s)) = mode (player s)")
      case True
      then have "enterPortal K obj s = s" by (simp add: enterPortal_def Let_def)
      with portal show ?thesis by (simp add: quietStep_refl)
    next
      case False
      show ?thesis unfolding portal
        by (rule quietStepI [where es = "[SoundPortal, Shake 12 True, PortalFlash (getPortalHue (otype obj)),
                      PortalAnim (ox obj + BLOCK_SIZE K / 2) (oy obj + BLOCK_SIZE K / 2)
                        (getPortalHue (otype obj))]"])
          (use False in \<open>simp_all add: enterPortal_def addEvents_def Let_def\<close>)
    qed
  qed
qed

lemma quietStep_collideAll: "quietStep s (collideAll K prevX ipy phX phY s cands)"
proof (rule collideAll_inv [where I = "quietStep s"])
  show "quietStep s s" by (rule quietStep_refl)
next
  fix t obj
  assume "quietStep s t"
  then show "quietStep s (flowState (collideObj K prevX ipy phX phY t obj))"
    using quietStep_collideObj quietStep_trans by blast
qed

lemma quietStep_subStep: "quietStep s (subStep K chunks speed prevX sy s)"
  unfolding subStep_def Let_def
  using quietStep_moveStep quietStep_collideAll quietStep_trans by blast

lemma quietStep_subSteps: "quietStep s (subSteps K chunks speed prevX sy n s)"
proof (rule subSteps_inv [where I = "quietStep s"])
  show "quietStep s s" by (rule quietStep_refl)
next
  fix t
  assume "quietStep s t"
  then show "quietStep s (subStep K chunks speed prevX sy t)"
    using quietStep_subStep quietStep_trans by blast
qed

lemma quietStep_physics: "quietStep s (physics K objs speed s)"
  unfolding physics_def Let_def
  using quietStep_applyVelocity quietStep_subSteps quietStep_trans by blast

lemma foldl_max_ox:
  "foldl (\<lambda>m obj. max m (ox obj)) a objs = Max (insert a (ox ` set objs))"
proof (induction objs arbitrary: a)
  case Nil
  then show ?case by simp
next
  case (Cons obj objs)
  have "Max (insert (max a (ox obj)) (ox ` set objs)) = Max (insert a (insert (ox obj) (ox ` set objs)))"
    by (cases "set objs = {}") (simp_all add: max.assoc)
  with Cons.IH [of "max a (ox obj)"] show ?case by simp
qed

lemma winX_nonempty:
  assumes "objs \<noteq> []"
  shows "winX objs = max MIN_WIN_DISTANCE (Max (ox ` set objs) + 1000)"
proof -
  have ne: "ox ` set objs \<noteq> {}" using assms by simp
  have "lastObjX objs = max 0 (Max (ox ` set objs))"
    using ne by (simp add: lastObjX_def foldl_max_ox)
  then show ?thesis
    by (simp add: winX_def MIN_WIN_DISTANCE_def max_def)
qed

lemma winX_positive: "0 < winX objs"
  by (simp add: winX_def MIN_WIN_DISTANCE_def max_def)

lemma triggerInteraction_events:
  "\<exists>es. events (triggerInteraction K chunks paused isAutoJump s) = events s @ es
        \<and> Win \<notin> set es
        \<and> (gravityDir (player (triggerInteraction K chunks paused isAutoJump s)) \<noteq> gravityDir (player s)
             \<longrightarrow> SoundJump \<in> set es)"
  by (simp add: triggerInteraction_def addEvents_def Let_def)

lemma triggerInteraction_px:
  "px (player (triggerInteraction K chunks paused isAutoJump s)) = px (player s)"
  by (simp add: triggerInteraction_def addEvents_def Let_def)

lemma triggerInteraction_mode:
  "mode (player (triggerInteraction K chunks paused isAutoJump s)) = mode (player s)"
  by (simp add: triggerInteraction_def addEvents_def Let_def)

lemma triggerInteraction_completion:
  "completion (triggerInteraction K chunks paused isAutoJump s) = completion s"
  by (simp add: triggerInteraction_def addEvents_def Let_def)

lemma autoJump_events:
  "\<exists>es. events (autoJump K objs s) = events s @ es \<and> Win \<notin> set es
        \<and> (gravityDir (player (autoJump K objs s)) \<noteq> gravityDir (player s) \<longrightarrow> SoundJump \<in> set es)"
  using triggerInteraction_events [of K "buildChunks objs" False True s]
  by (auto simp: autoJump_def)

lemma autoJump_frame:
  "px (player (autoJump K objs s)) = px (player s)
   \<and> completion (autoJump K objs s) = completion s
   \<and> mode (player (autoJump K objs s)) = mode (player s)"
  by (simp add: autoJump_def triggerInteraction_px triggerInteraction_completion triggerInteraction_mode)

lemma gravityDir_autoJump:
  "gravityDir (player (autoJump K objs s)) \<noteq> gravityDir (player s)
   \<Longrightarrow> mode (player s) = BALL \<or> mode (player s) = SPIDER \<or> mode (player s) = SWING"
  using gravityDir_triggerInteraction [of K "buildChunks objs" False True s]
  by (auto simp: autoJump_def split: if_splits)

lemma finishFrame_summary:
  "\<exists>es. events (finishFrame K objs p)
           = events p @ es @ (if px (player p) > winX objs then [Win] else [])
        \<and> Win \<notin> set es
        \<and> (gravityDir (player (finishFrame K objs p)) \<noteq> gravityDir (player p)
             \<longrightarrow> SoundJump \<in> set es
                 \<and> (mode (player p) = BALL \<or> mode (player p) = SPIDER \<or> mode (player p) = SWING))"
proof -
  let ?s1 = "p\<lparr>cameraX := px (player p) - 150,
               completion := min 100 ((px (player p) / winX objs) * 100)\<rparr>"
  obtain es where es: "events (autoJump K objs ?s1) = events ?s1 @ es" "Win \<notin> set es"
    "gravityDir (player (autoJump K objs ?s1)) \<noteq> gravityDir (player ?s1) \<longrightarrow> SoundJump \<in> set es"
    using autoJump_events [of K objs ?s1] by blast
  have m: "gravityDir (player (autoJump K objs ?s1)) \<noteq> gravityDir (player ?s1)
           \<longrightarrow> (mode (player p) = BALL \<or> mode (player p) = SPIDER \<or> mode (player p) = SWING)"
    using gravityDir_autoJump [of K objs ?s1] by auto
  have x: "px (player (autoJump K objs ?s1)) = px (player p)"
    using autoJump_frame [of K objs ?s1] by simp
  show ?thesis
    by (rule exI [where x = es]) (use es m x in \<open>auto simp: finishFrame_def Let_def addEvents_def\<close>)
qed

lemma finishFrame_frame:
  "px (player (finishFrame K objs p)) = px (player p)
   \<and> completion (finishFrame K objs p) = min 100 ((px (player p) / winX objs) * 100)
   \<and> mode (player (finishFrame K objs p)) = mode (player p)"
  using autoJump_frame [of K objs "p\<lparr>cameraX := px (player p) - 150,
               completion := min 100 ((px (player p) / winX objs) * 100)\<rparr>"]
  by (simp add: finishFrame_def Let_def addEvents_def)

lemma update_running:
  assumes "\<not> paused" and "\<not> isDead (player s)"
  shows "update K objs speed paused s
           = finishFrame K objs (physics K objs speed (s\<lparr>frame := frame s + 1\<rparr>))"
  using assms by (simp add: update_def Let_def)

lemma update_idle:
  assumes "paused \<or> isDead (player s)"
  shows "player (update K objs speed paused s) = player s
         \<and> events (update K objs speed paused s) = events s
         \<and> completion (update K objs speed paused s) = completion s"
  using assms by (auto simp: update_def Let_def)

lemma update_trace:
  assumes "\<not> paused" and "\<not> isDead (player s)"
  shows "\<exists>ne. events (update K objs speed paused s) = events s @ ne
           \<and> (Win \<in> set ne \<longleftrightarrow> px (player (update K objs speed paused s)) > winX objs)
           \<and> (gravityDir (player (update K objs speed paused s)) \<noteq> gravityDir (player s)
                \<longrightarrow> SoundPortal \<in> set ne
                    \<or> (SoundJump \<in> set ne
                        \<and> (mode (player (update K objs speed paused s)) = BALL
                            \<or> mode (player (update K objs speed paused s)) = SPIDER
                            \<or> mode (player (update K objs speed paused s)) = SWING)))"
proof -
  let ?s1 = "s\<lparr>frame := frame s + 1\<rparr>"
  let ?p = "physics K objs speed ?s1"
  have q: "quietStep ?s1 ?p" by (rule quietStep_physics)
  obtain es where es: "events (finishFrame K objs ?p)
           = events ?p @ es @ (if px (player ?p) > winX objs then [Win] else [])"
      "Win \<notin> set es"
      "gravityDir (player (finishFrame K objs ?p)) \<noteq> gravityDir (player ?p)
             \<longrightarrow> SoundJump \<in> set es
                 \<and> (mode (player ?p) = BALL \<or> mode (player ?p) = SPIDER \<or> mode (player ?p) = SWING)"
    using finishFrame_summary [of K objs ?p] by blast
  have f: "px (player (finishFrame K objs ?p)) = px (player ?p)"
    "mode (player (finishFrame K objs ?p)) = mode (player ?p)"
    using finishFrame_frame [of K objs ?p] by simp_all
  let ?ne = "newEvents ?s1 ?p @ es @ (if px (player ?p) > winX objs then [Win] else [])"
  have u: "update K objs speed paused s = finishFrame K objs ?p"
    using assms by (rule update_running)
  have 1: "events (update K objs speed paused s) = events s @ ?ne"
    using q es(1) u by (simp add: quietStep_def)
  have 2: "Win \<in> set ?ne \<longleftrightarrow> px (player (update K objs speed paused s)) > winX objs"
    using q es(2) u f by (simp add: quietStep_def)
  have 3: "gravityDir (player (update K objs speed paused s)) \<noteq> gravityDir (player s)
                \<longrightarrow> SoundPortal \<in> set ?ne
                    \<or> (SoundJump \<in> set ?ne
                        \<and> (mode (player (update K objs speed paused s)) = BALL
                            \<or> mode (player (update K objs speed paused s)) = SPIDER
                            \<or> mode (player (update K objs speed paused s)) = SWING))"
  proof
    assume ch: "gravityDir (player (update K objs speed paused s)) \<noteq> gravityDir (player s)"
    show "SoundPortal \<in> set ?ne
                    \<or> (SoundJump \<in> set ?ne
                        \<and> (mode (player (update K objs speed paused s)) = BALL
                            \<or> mode (player (update K objs speed paused s)) = SPIDER
                            \<or> mode (player (update K objs speed paused s)) = SWING))"
    proof (cases "gravityDir (player ?p) = gravityDir (player s)")
      case True
      with ch u have "gravityDir (player (finishFrame K objs ?p)) \<noteq> gravityDir (player ?p)" by simp
      with es(3) f u show ?thesis by auto
    next
      case False
      with q have "SoundPortal \<in> set (newEvents ?s1 ?p)" by (simp add: quietStep_def)
      then show ?thesis by simp
    qed
  qed
  from 1 2 3 show ?thesis by blast
qed

section \<open>Velocity and jump counter through a frame\<close>















section \<open>The mode through a frame\<close>

lemma mode_rotateStep: "mode (rotateStep speed held p) = mode p"
  by (simp add: rotateStep_def Let_def)

lemma mode_moveStep: "mode (player (moveStep speed sy s)) = mode (player s)"
  by (simp add: moveStep_def clampWorld_def Let_def mode_rotateStep)

lemma mode_collideObj:
  assumes "isPortal (otype obj) \<longrightarrow> \<not> prevX + PLAYER_SIZE K \<le> ox obj + 15"
  shows "mode (player (flowState (collideObj K prevX ipy phX phY s obj))) = mode (player s)"
  using assms
  by (simp add: collideObj_def landOn_def hangBelow_def kill_def addEvents_def Let_def)

lemma mode_subStep:
  assumes "noPortalAhead K prevX objs"
  shows "mode (player (subStep K (buildChunks objs) speed prevX sy s)) = mode (player s)"
  unfolding subStep_def Let_def
proof (rule collideAll_inv [where I = "\<lambda>t. mode (player t) = mode (player s)"])
  show "mode (player (moveStep speed sy s)) = mode (player s)" by (rule mode_moveStep)
next
  fix t :: Sim and obj
  assume "obj \<in> set (gather (buildChunks objs) (px (player (moveStep speed sy s))))"
    and t: "mode (player t) = mode (player s)"
  then have "obj \<in> set objs" using gather_subset by blast
  with assms have "isPortal (otype obj) \<longrightarrow> \<not> prevX + PLAYER_SIZE K \<le> ox obj + 15"
    by (auto simp: noPortalAhead_def list_all_iff)
  from mode_collideObj [OF this] t
  show "mode (player (flowState (collideObj K prevX (py (player s)) (px (player (moveStep speed sy s)) + 4)
      (py (player (moveStep speed sy s)) + 4) t obj))) = mode (player s)"
    by simp
qed

lemma mode_subSteps:
  assumes "noPortalAhead K prevX objs"
  shows "mode (player (subSteps K (buildChunks objs) speed prevX sy n s)) = mode (player s)"
proof (rule subSteps_inv [where I = "\<lambda>t. mode (player t) = mode (player s)"])
  show "mode (player s) = mode (player s)" by simp
next
  fix t :: Sim
  assume "mode (player t) = mode (player s)"
  with mode_subStep [OF assms]
  show "mode (player (subStep K (buildChunks objs) speed prevX sy t)) = mode (player s)" by simp
qed

lemma mode_update:
  assumes "noPortalAhead K (px (player s)) objs"
  shows "mode (player (update K objs speed paused s)) = mode (player s)"
proof (cases "paused \<or> isDead (player s)")
  case True
  then show ?thesis using update_idle [of paused s K objs speed] by simp
next
  case False
  have "mode (player (physics K objs speed (s\<lparr>frame := frame s + 1\<rparr>))) = mode (player s)"
    unfolding physics_def Let_def using mode_subSteps [of K "px (player s)" objs] assms
    by (simp add: applyVelocity_def)
  with False show ?thesis
    using finishFrame_frame [of K objs "physics K objs speed (s\<lparr>frame := frame s + 1\<rparr>)"]
    by (simp add: update_running)
qed

section \<open>The vertical range through a frame\<close>







lemma flipGravity_cases: "flipGravity g = 1 \<or> flipGravity g = - 1"
  by (simp add: flipGravity_def)










section \<open>The order of the collision loop\<close>

text \<open>
  C1, as the claim states it, fails. The falling Cube lands on the first candidate, which
  is a grounding outcome, and the loop goes on: the second candidate, checked against the
  landed player, kills it. With the first block alone the player is alive and grounded.
\<close>

theorem grounding_does_not_stop_counterexample:
  "collideObj sampleConstants 58.5 280 65 289 (moveStep 5 5 fallingCube) landingBlock
     = Continue (landOn sampleConstants landingBlock (moveStep 5 5 fallingCube))
   \<and> onSurface (subStep sampleConstants (buildChunks [landingBlock]) 5 58.5 5 fallingCube)
   \<and> \<not> isDead (player (subStep sampleConstants (buildChunks [landingBlock]) 5 58.5 5 fallingCube))
   \<and> isDead (player (subStep sampleConstants (buildChunks [landingBlock, wallBlock]) 5 58.5 5 fallingCube))
   \<and> collideAll sampleConstants 58.5 280 65 289 (moveStep 5 5 fallingCube) [landingBlock, wallBlock]
       \<noteq> landOn sampleConstants landingBlock (moveStep 5 5 fallingCube)"
  by (simp add: fallingCube_def landingBlock_def wallBlock_def sample_defs run_defs game_consts
        buildChunks_def pushChunk_def chunkList_def gather_def collideObj_def blockOverlap_def
        landOn_def hangBelow_def kill_def numeral_2_eq_2 upto.simps)

text \<open>
  C1, amended. A sub-step runs the loop over the candidates, which are the chunks
  \<open>pChunk - 1\<close> to \<open>pChunk + 2\<close> in that order, each in the order of the level, and the loop
  takes them in that order. The first lethal outcome ends the loop: the candidates after
  it are not checked. A grounding outcome does not end it: the candidates after it are
  still checked, blocks and portals against the player as the snap has left it, spikes
  against the hit box that was computed before the loop.
\<close>

theorem first_lethal_wins:
  "subStep K (buildChunks objs) speed prevX sy s =
     collideAll K prevX (py (player s))
       (px (player (moveStep speed sy s)) + 4) (py (player (moveStep speed sy s)) + 4)
       (moveStep speed sy s)
       (concat (map (\<lambda>c. filter (\<lambda>obj. \<lfloor>ox obj / CHUNK_SIZE\<rfloor> = c) objs)
                    [\<lfloor>px (player (moveStep speed sy s)) / CHUNK_SIZE\<rfloor> - 1 ..
                     \<lfloor>px (player (moveStep speed sy s)) / CHUNK_SIZE\<rfloor> + 2]))
   \<and> (\<not> isDead (player t) \<longrightarrow>
        collideAll K prevX ipy phX phY t (xs @ ys) =
          (if isDead (player (collideAll K prevX ipy phX phY t xs))
           then collideAll K prevX ipy phX phY t xs
           else collideAll K prevX ipy phX phY (collideAll K prevX ipy phX phY t xs) ys))
   \<and> (collideObj K prevX ipy phX phY t obj = Break u \<longrightarrow>
        collideAll K prevX ipy phX phY t (obj # rest) = u \<and> isDead (player u))
   \<and> (\<not> isDead (player t) \<and> collideObj K prevX ipy phX phY t obj = Continue u \<longrightarrow>
        collideAll K prevX ipy phX phY t (obj # rest) = collideAll K prevX ipy phX phY u rest
        \<and> \<not> isDead (player u))
   \<and> (otype obj = SPIKE \<longrightarrow>
        collideObj K prevX ipy phX phY t obj
          = (if spikeHit K phX phY obj then Break (kill t) else Continue t))"
proof -
  have a: "subStep K (buildChunks objs) speed prevX sy s =
     collideAll K prevX (py (player s))
       (px (player (moveStep speed sy s)) + 4) (py (player (moveStep speed sy s)) + 4)
       (moveStep speed sy s)
       (concat (map (\<lambda>c. filter (\<lambda>obj. \<lfloor>ox obj / CHUNK_SIZE\<rfloor> = c) objs)
                    [\<lfloor>px (player (moveStep speed sy s)) / CHUNK_SIZE\<rfloor> - 1 ..
                     \<lfloor>px (player (moveStep speed sy s)) / CHUNK_SIZE\<rfloor> + 2]))"
    by (simp add: subStep_def Let_def gather_buildChunks)
  have b: "\<not> isDead (player t) \<longrightarrow>
        collideAll K prevX ipy phX phY t (xs @ ys) =
          (if isDead (player (collideAll K prevX ipy phX phY t xs))
           then collideAll K prevX ipy phX phY t xs
           else collideAll K prevX ipy phX phY (collideAll K prevX ipy phX phY t xs) ys)"
    using collideAll_append by blast
  have c: "collideObj K prevX ipy phX phY t obj = Break u \<longrightarrow>
      collideAll K prevX ipy phX phY t (obj # rest) = u \<and> isDead (player u)"
    by (auto dest!: collideObj_Break simp: isDead_kill)
  have d: "\<not> isDead (player t) \<and> collideObj K prevX ipy phX phY t obj = Continue u \<longrightarrow>
      collideAll K prevX ipy phX phY t (obj # rest) = collideAll K prevX ipy phX phY u rest
      \<and> \<not> isDead (player u)"
    by (auto dest!: collideObj_Continue_isDead)
  have e: "otype obj = SPIKE \<longrightarrow>
        collideObj K prevX ipy phX phY t obj
          = (if spikeHit K phX phY obj then Break (kill t) else Continue t)"
    by (simp add: collideObj_def Let_def)
  from a b c d e show ?thesis by blast
qed

theorem first_lethal_wins_witness:
  "\<not> isDead (player (moveStep 5 5 fallingCube))
   \<and> collideAll sampleConstants 58.5 280 65 289 (moveStep 5 5 fallingCube) ([landingBlock] @ [wallBlock])
       = collideAll sampleConstants 58.5 280 65 289
           (collideAll sampleConstants 58.5 280 65 289 (moveStep 5 5 fallingCube) [landingBlock]) [wallBlock]
   \<and> isDead (player (collideAll sampleConstants 58.5 280 65 289 (moveStep 5 5 fallingCube) ([landingBlock] @ [wallBlock])))
   \<and> otype sideSpike = SPIKE
   \<and> collideObj sampleConstants 58.5 280 65 288.4 (moveStep 2.5 4.4 slowCube) landingBlock
       = Continue (landOn sampleConstants landingBlock (moveStep 2.5 4.4 slowCube))
   \<and> collideObj sampleConstants 58.5 280 65 288.4
        (landOn sampleConstants landingBlock (moveStep 2.5 4.4 slowCube)) sideSpike
       = Break (kill (landOn sampleConstants landingBlock (moveStep 2.5 4.4 slowCube)))
   \<and> isDead (player (subStep sampleConstants (buildChunks [landingBlock, sideSpike]) 2.5 58.5 4.4 slowCube))
   \<and> \<not> isDead (player (subStep sampleConstants (buildChunks [landingBlock, highSpike]) 2.5 58.5 4.4 slowCube))
   \<and> py (player (subStep sampleConstants (buildChunks [landingBlock, highSpike]) 2.5 58.5 4.4 slowCube)) = 280"
proof -
  have alive: "\<not> isDead (player (moveStep 5 5 fallingCube))"
    by (simp add: fallingCube_def sample_defs run_defs)
  have first: "\<not> isDead (player (collideAll sampleConstants 58.5 280 65 289 (moveStep 5 5 fallingCube) [landingBlock]))"
    by (simp add: fallingCube_def landingBlock_def sample_defs run_defs level_eval)
  have dead: "isDead (player (collideAll sampleConstants 58.5 280 65 289 (moveStep 5 5 fallingCube) [landingBlock, wallBlock]))"
    by (simp add: fallingCube_def landingBlock_def wallBlock_def sample_defs run_defs level_eval)
  have spike: "otype sideSpike = SPIKE" "spikeHit sampleConstants 65 288.4 sideSpike"
    by (simp_all add: sideSpike_def sample_defs spikeHit_def pointInTriangle_def)
  have land: "collideObj sampleConstants 58.5 280 65 288.4 (moveStep 2.5 4.4 slowCube) landingBlock
       = Continue (landOn sampleConstants landingBlock (moveStep 2.5 4.4 slowCube))"
    by (simp add: slowCube_def landingBlock_def sample_defs run_defs level_eval)
  have run1: "isDead (player (subStep sampleConstants (buildChunks [landingBlock, sideSpike]) 2.5 58.5 4.4 slowCube))"
    by (simp add: slowCube_def landingBlock_def sideSpike_def sample_defs run_defs game_consts level_eval)
  have run2: "\<not> isDead (player (subStep sampleConstants (buildChunks [landingBlock, highSpike]) 2.5 58.5 4.4 slowCube))"
    "py (player (subStep sampleConstants (buildChunks [landingBlock, highSpike]) 2.5 58.5 4.4 slowCube)) = 280"
    by (simp_all add: slowCube_def landingBlock_def highSpike_def sample_defs run_defs game_consts level_eval)
  note thm1 = first_lethal_wins [of sampleConstants "[]" 5 "58.5" 5 fallingCube
      "moveStep 5 5 fallingCube" 280 65 289 "[landingBlock]" "[wallBlock]" landingBlock
      "landOn sampleConstants landingBlock (moveStep 5 5 fallingCube)" "[]"]
  note thm2 = first_lethal_wins [of sampleConstants "[]" 5 "58.5" 5 fallingCube
      "landOn sampleConstants landingBlock (moveStep 2.5 4.4 slowCube)" 280 65 "288.4" "[]" "[]" sideSpike
      "landOn sampleConstants landingBlock (moveStep 2.5 4.4 slowCube)" "[]"]
  from thm1 alive first have split: "collideAll sampleConstants 58.5 280 65 289 (moveStep 5 5 fallingCube) ([landingBlock] @ [wallBlock])
       = collideAll sampleConstants 58.5 280 65 289
           (collideAll sampleConstants 58.5 280 65 289 (moveStep 5 5 fallingCube) [landingBlock]) [wallBlock]"
    by simp
  from thm2 spike have hit: "collideObj sampleConstants 58.5 280 65 288.4
        (landOn sampleConstants landingBlock (moveStep 2.5 4.4 slowCube)) sideSpike
       = Break (kill (landOn sampleConstants landingBlock (moveStep 2.5 4.4 slowCube)))"
    by simp
  from alive split dead spike(1) land hit run1 run2 show ?thesis by simp
qed

section \<open>Collision with one object\<close>

text \<open>
  C2. In a sub-step of a living player, take a Block among the candidates that the loop
  reaches (no candidate before it was lethal) and that the player's full box overlaps when
  it is reached. In Wave mode the sub-step ends with the player dead. Otherwise, if the
  bottom before the sub-step (\<open>internalPrevY + PLAYER_SIZE\<close>) was no lower than the block's
  top plus 12 and \<open>vy * gravityDir \<ge> 0\<close> with \<open>gravityDir = 1\<close>, the player is put on top
  (\<open>y = obj.y - PLAYER_SIZE\<close>, \<open>vy = 0\<close>, grounded) and the sub-step goes on with the
  candidates after the block; if the top before the sub-step was no higher than the
  block's bottom minus 12 and \<open>vy * gravityDir \<ge> 0\<close> with \<open>gravityDir = -1\<close>, the player is
  put below (\<open>y = obj.y + BLOCK_SIZE\<close>, \<open>vy = 0\<close>, grounded) and the sub-step goes on
  likewise; in every other case the sub-step ends with the player dead. The frame's loop
  runs such a sub-step while the player lives, and with sizes between 0 and the chunk
  width a block of the level that overlaps the player is among the candidates.
\<close>

theorem block_collision_cases:
  assumes "\<not> isDead (player s)"
    and "gather chunks (px (player (moveStep speed sy s))) = xs @ obj # ys"
    and "otype obj = BLOCK"
    and "t = collideAll K prevX (py (player s))
               (px (player (moveStep speed sy s)) + 4) (py (player (moveStep speed sy s)) + 4)
               (moveStep speed sy s) xs"
    and "\<not> isDead (player t)"
    and "blockOverlap K (player t) obj"
  shows "subStep K chunks speed prevX sy s =
           (if mode (player t) = WAVE then kill t
            else if py (player s) + PLAYER_SIZE K \<le> oy obj + 12
                    \<and> vy (player t) * gravityDir (player t) \<ge> 0 \<and> gravityDir (player t) = 1
              then collideAll K prevX (py (player s))
                     (px (player (moveStep speed sy s)) + 4) (py (player (moveStep speed sy s)) + 4)
                     (t\<lparr>player := (player t)\<lparr>py := oy obj - PLAYER_SIZE K, vy := 0,
                                               isJumping := False\<rparr>,
                        onSurface := True\<rparr>) ys
            else if py (player s) \<ge> oy obj + BLOCK_SIZE K - 12
                    \<and> vy (player t) * gravityDir (player t) \<ge> 0 \<and> gravityDir (player t) = - 1
              then collideAll K prevX (py (player s))
                     (px (player (moveStep speed sy s)) + 4) (py (player (moveStep speed sy s)) + 4)
                     (t\<lparr>player := (player t)\<lparr>py := oy obj + BLOCK_SIZE K, vy := 0,
                                               isJumping := False\<rparr>,
                        onSurface := True\<rparr>) ys
            else kill t)
         \<and> isDead (player (kill t))
         \<and> subSteps K chunks speed prevX sy (Suc n) s
             = subSteps K chunks speed prevX sy n (subStep K chunks speed prevX sy s)
         \<and> (obj \<in> set objs \<and> 0 \<le> BLOCK_SIZE K \<and> BLOCK_SIZE K \<le> CHUNK_SIZE
              \<and> 0 \<le> PLAYER_SIZE K \<and> PLAYER_SIZE K \<le> CHUNK_SIZE
              \<longrightarrow> obj \<in> set (gather (buildChunks objs) (px (player t))))"
proof -
  let ?m = "moveStep speed sy s"
  let ?phX = "px (player ?m) + 4"
  let ?phY = "py (player ?m) + 4"
  let ?ipy = "py (player s)"
  have m_alive: "\<not> isDead (player ?m)"
    using assms(1) by (simp add: isDead_moveStep)
  have body: "collideObj K prevX ?ipy ?phX ?phY t obj =
           (if mode (player t) = WAVE then Break (kill t)
            else if ?ipy + PLAYER_SIZE K \<le> oy obj + 12
                    \<and> vy (player t) * gravityDir (player t) \<ge> 0 \<and> gravityDir (player t) = 1
              then Continue (landOn K obj t)
            else if ?ipy \<ge> oy obj + BLOCK_SIZE K - 12
                    \<and> vy (player t) * gravityDir (player t) \<ge> 0 \<and> gravityDir (player t) = - 1
              then Continue (hangBelow K obj t)
            else Break (kill t))"
    unfolding collideObj_def Let_def using assms(3,6)
    by (simp only: if_True if_False ObjectType.distinct simp_thms)
  have "subStep K chunks speed prevX sy s = collideAll K prevX ?ipy ?phX ?phY ?m (xs @ obj # ys)"
    using assms(2) by (simp add: subStep_def Let_def)
  also have "\<dots> = collideAll K prevX ?ipy ?phX ?phY t (obj # ys)"
    using collideAll_append [OF m_alive, of K prevX ?ipy ?phX ?phY xs "obj # ys"] assms(4,5)
    by simp
  also have "\<dots> =
           (if mode (player t) = WAVE then kill t
            else if ?ipy + PLAYER_SIZE K \<le> oy obj + 12
                    \<and> vy (player t) * gravityDir (player t) \<ge> 0 \<and> gravityDir (player t) = 1
              then collideAll K prevX ?ipy ?phX ?phY (landOn K obj t) ys
            else if ?ipy \<ge> oy obj + BLOCK_SIZE K - 12
                    \<and> vy (player t) * gravityDir (player t) \<ge> 0 \<and> gravityDir (player t) = - 1
              then collideAll K prevX ?ipy ?phX ?phY (hangBelow K obj t) ys
            else kill t)"
  proof -
    define A where "A \<longleftrightarrow> ?ipy + PLAYER_SIZE K \<le> oy obj + 12
             \<and> vy (player t) * gravityDir (player t) \<ge> 0 \<and> gravityDir (player t) = 1"
    define B where "B \<longleftrightarrow> ?ipy \<ge> oy obj + BLOCK_SIZE K - 12
             \<and> vy (player t) * gravityDir (player t) \<ge> 0 \<and> gravityDir (player t) = - 1"
    have body': "collideObj K prevX ?ipy ?phX ?phY t obj =
           (if mode (player t) = WAVE then Break (kill t)
            else if A then Continue (landOn K obj t)
            else if B then Continue (hangBelow K obj t)
            else Break (kill t))"
      using body unfolding A_def B_def .
    have "collideAll K prevX ?ipy ?phX ?phY t (obj # ys) =
           (if mode (player t) = WAVE then kill t
            else if A then collideAll K prevX ?ipy ?phX ?phY (landOn K obj t) ys
            else if B then collideAll K prevX ?ipy ?phX ?phY (hangBelow K obj t) ys
            else kill t)"
      by (simp add: body')
    then show ?thesis unfolding A_def B_def .
  qed
  finally have main: "subStep K chunks speed prevX sy s =
           (if mode (player t) = WAVE then kill t
            else if ?ipy + PLAYER_SIZE K \<le> oy obj + 12
                    \<and> vy (player t) * gravityDir (player t) \<ge> 0 \<and> gravityDir (player t) = 1
              then collideAll K prevX ?ipy ?phX ?phY (landOn K obj t) ys
            else if ?ipy \<ge> oy obj + BLOCK_SIZE K - 12
                    \<and> vy (player t) * gravityDir (player t) \<ge> 0 \<and> gravityDir (player t) = - 1
              then collideAll K prevX ?ipy ?phX ?phY (hangBelow K obj t) ys
            else kill t)" .
  have loop: "subSteps K chunks speed prevX sy (Suc n) s
             = subSteps K chunks speed prevX sy n (subStep K chunks speed prevX sy s)"
    using assms(1) by simp
  have gathered: "obj \<in> set objs \<and> 0 \<le> BLOCK_SIZE K \<and> BLOCK_SIZE K \<le> CHUNK_SIZE
              \<and> 0 \<le> PLAYER_SIZE K \<and> PLAYER_SIZE K \<le> CHUNK_SIZE
              \<longrightarrow> obj \<in> set (gather (buildChunks objs) (px (player t)))"
    using assms(6) overlapping_gathered [of obj objs "px (player t)" K]
    by (simp add: blockOverlap_def)
  from main loop gathered isDead_kill [of t] show ?thesis
    unfolding landOn_def hangBelow_def by blast
qed

theorem block_collision_cases_witness:
  "\<not> isDead (player landingCube)
   \<and> gather (buildChunks [groundBlock]) (px (player (moveStep 5 5 landingCube))) = [] @ groundBlock # []
   \<and> otype groundBlock = BLOCK
   \<and> blockOverlap sampleConstants (player (moveStep 5 5 landingCube)) groundBlock
   \<and> py (player (subStep sampleConstants (buildChunks [groundBlock]) 5 185 5 landingCube)) = 280
   \<and> vy (player (subStep sampleConstants (buildChunks [groundBlock]) 5 185 5 landingCube)) = 0
   \<and> onSurface (subStep sampleConstants (buildChunks [groundBlock]) 5 185 5 landingCube)
   \<and> blockOverlap sampleConstants (player (moveStep 5 5 lateCube)) groundBlock
   \<and> isDead (player (subStep sampleConstants (buildChunks [groundBlock]) 5 185 5 lateCube))
   \<and> py (player (update sampleConstants [groundBlock] 5 False cubeAbove)) = 280
   \<and> onSurface (update sampleConstants [groundBlock] 5 False cubeAbove)
   \<and> \<not> isDead (player (update sampleConstants [groundBlock] 5 False cubeAbove))"
proof -
  have g: "gather (buildChunks [groundBlock]) 190 = [] @ groundBlock # []"
    by (simp add: groundBlock_def sample_defs level_eval game_consts)
  have b: "otype groundBlock = BLOCK" by (simp add: groundBlock_def mkObject_def)
  have a1: "\<not> isDead (player landingCube)" by (simp add: landingCube_def sample_defs)
  have x1: "px (player (moveStep 5 5 landingCube)) = 190"
    by (simp add: landingCube_def sample_defs run_defs)
  have g1: "gather (buildChunks [groundBlock]) (px (player (moveStep 5 5 landingCube))) = [] @ groundBlock # []"
    using g x1 by simp
  have t1: "moveStep 5 5 landingCube = collideAll sampleConstants 185 (py (player landingCube))
               (px (player (moveStep 5 5 landingCube)) + 4) (py (player (moveStep 5 5 landingCube)) + 4)
               (moveStep 5 5 landingCube) []"
    by simp
  have d1: "\<not> isDead (player (moveStep 5 5 landingCube))"
    using a1 by (simp add: isDead_moveStep)
  have o1: "blockOverlap sampleConstants (player (moveStep 5 5 landingCube)) groundBlock"
    by (simp add: landingCube_def groundBlock_def sample_defs run_defs blockOverlap_def)
  have a2: "\<not> isDead (player lateCube)" by (simp add: lateCube_def sample_defs)
  have x2: "px (player (moveStep 5 5 lateCube)) = 190"
    by (simp add: lateCube_def sample_defs run_defs)
  have g2: "gather (buildChunks [groundBlock]) (px (player (moveStep 5 5 lateCube))) = [] @ groundBlock # []"
    using g x2 by simp
  have t2: "moveStep 5 5 lateCube = collideAll sampleConstants 185 (py (player lateCube))
               (px (player (moveStep 5 5 lateCube)) + 4) (py (player (moveStep 5 5 lateCube)) + 4)
               (moveStep 5 5 lateCube) []"
    by simp
  have d2: "\<not> isDead (player (moveStep 5 5 lateCube))"
    using a2 by (simp add: isDead_moveStep)
  have o2: "blockOverlap sampleConstants (player (moveStep 5 5 lateCube)) groundBlock"
    by (simp add: lateCube_def groundBlock_def sample_defs run_defs blockOverlap_def)
  have land: "subStep sampleConstants (buildChunks [groundBlock]) 5 185 5 landingCube
      = (moveStep 5 5 landingCube)\<lparr>player := (player (moveStep 5 5 landingCube))
            \<lparr>py := 280, vy := 0, isJumping := False\<rparr>, onSurface := True\<rparr>"
    using conjunct1 [OF block_collision_cases [OF a1 g1 b t1 d1 o1]]
    by (simp add: landingCube_def groundBlock_def sample_defs run_defs)
  have die: "subStep sampleConstants (buildChunks [groundBlock]) 5 185 5 lateCube
      = kill (moveStep 5 5 lateCube)"
    using conjunct1 [OF block_collision_cases [OF a2 g2 b t2 d2 o2]]
    by (simp add: lateCube_def groundBlock_def sample_defs run_defs)
  have frame: "py (player (update sampleConstants [groundBlock] 5 False cubeAbove)) = 280"
    "onSurface (update sampleConstants [groundBlock] 5 False cubeAbove)"
    "\<not> isDead (player (update sampleConstants [groundBlock] 5 False cubeAbove))"
    by (simp_all add: cubeAbove_def groundBlock_def sample_defs run_defs game_consts level_eval)
  from a1 g1 b o1 o2 land die frame show ?thesis
    by (simp add: isDead_kill)
qed

text \<open>
  C3. When the player's box overlaps the 150 units tall box of a portal, the portal acts
  only if the player's right edge before the step (\<open>prevX + PLAYER_SIZE\<close>, with \<open>prevX\<close>
  the x at the start of the frame's sub-steps) was at or before the portal's left edge
  plus 15; beyond that the object leaves the state as it is, and within it the portal
  body runs. Over a frame, a player that starts past that edge of every portal of the
  level keeps its mode, however long it straddles them.
\<close>

theorem portal_leading_edge:
  assumes "isPortal (otype obj)" and "portalOverlap K (player s) obj"
  shows "(collideObj K prevX internalPrevY phX phY s obj \<noteq> Continue s \<longrightarrow> prevX + PLAYER_SIZE K \<le> ox obj + 15)
         \<and> (\<not> prevX + PLAYER_SIZE K \<le> ox obj + 15 \<longrightarrow> collideObj K prevX internalPrevY phX phY s obj = Continue s)
         \<and> (prevX + PLAYER_SIZE K \<le> ox obj + 15 \<longrightarrow>
              collideObj K prevX internalPrevY phX phY s obj = Continue (enterPortal K obj s))
         \<and> (noPortalAhead K (px (player t)) objs \<longrightarrow>
              mode (player (update K objs speed paused t)) = mode (player t))"
proof -
  have "noPortalAhead K (px (player t)) objs \<longrightarrow>
          mode (player (update K objs speed paused t)) = mode (player t)"
    using mode_update by blast
  moreover have "(collideObj K prevX internalPrevY phX phY s obj \<noteq> Continue s \<longrightarrow> prevX + PLAYER_SIZE K \<le> ox obj + 15)
         \<and> (\<not> prevX + PLAYER_SIZE K \<le> ox obj + 15 \<longrightarrow> collideObj K prevX internalPrevY phX phY s obj = Continue s)
         \<and> (prevX + PLAYER_SIZE K \<le> ox obj + 15 \<longrightarrow>
              collideObj K prevX internalPrevY phX phY s obj = Continue (enterPortal K obj s))"
    using assms by (cases "otype obj") (simp_all add: collideObj_def Let_def)
  ultimately show ?thesis by blast
qed

theorem portal_leading_edge_witness:
  "isPortal (otype (mkObject PORTAL_SHIP 80 100))
   \<and> portalOverlap sampleConstants (player (simOf (startPlayer\<lparr>py := 100\<rparr>))) (mkObject PORTAL_SHIP 80 100)
   \<and> (45::real) + PLAYER_SIZE sampleConstants \<le> ox (mkObject PORTAL_SHIP 80 100) + 15
   \<and> mode (player (flowState (collideObj sampleConstants 45 100 54 104 (simOf (startPlayer\<lparr>py := 100\<rparr>))
        (mkObject PORTAL_SHIP 80 100)))) = SHIP
   \<and> portalOverlap sampleConstants (player (simOf (startPlayer\<lparr>px := 65, py := 100\<rparr>))) (mkObject PORTAL_SHIP 80 100)
   \<and> \<not> (60::real) + PLAYER_SIZE sampleConstants \<le> ox (mkObject PORTAL_SHIP 80 100) + 15
   \<and> collideObj sampleConstants 60 100 69 104 (simOf (startPlayer\<lparr>px := 65, py := 100\<rparr>)) (mkObject PORTAL_SHIP 80 100)
       = Continue (simOf (startPlayer\<lparr>px := 65, py := 100\<rparr>))
   \<and> noPortalAhead sampleConstants (px (player straddlingCube)) [mkObject PORTAL_SHIP 80 360]
   \<and> portalOverlap sampleConstants (player straddlingCube) (mkObject PORTAL_SHIP 80 360)
   \<and> mode (player (update sampleConstants [mkObject PORTAL_SHIP 80 360] 5 False straddlingCube)) = CUBE"
  using portal_leading_edge [of "mkObject PORTAL_SHIP 80 100" sampleConstants
          "simOf (startPlayer\<lparr>py := 100\<rparr>)" 45 100 54 104 straddlingCube "[mkObject PORTAL_SHIP 80 360]" 5 False]
        portal_leading_edge [of "mkObject PORTAL_SHIP 80 100" sampleConstants
          "simOf (startPlayer\<lparr>px := 65, py := 100\<rparr>)" 60 100 69 104 straddlingCube "[mkObject PORTAL_SHIP 80 360]" 5 False]
  by (simp add: sample_defs portalOverlap_def enterPortal_def addEvents_def noPortalAhead_def
        straddlingCube_def)

section \<open>The gravity direction\<close>

text \<open>
  C4, as the claim states it, fails: an interaction in Swing mode flips the gravity
  direction, and Swing is neither Ball nor Spider.
\<close>

theorem swing_flips_gravity_counterexample:
  "mode (player swingPlayer) = SWING
   \<and> gravityDir (player swingPlayer) = 1
   \<and> gravityDir (player (triggerInteraction sampleConstants Map.empty False False swingPlayer)) = - 1
   \<and> mode (player (triggerInteraction sampleConstants Map.empty False False swingPlayer)) = SWING
   \<and> \<not> (mode (player swingPlayer) = BALL \<or> mode (player swingPlayer) = SPIDER)"
  by (simp add: swingPlayer_def sample_defs triggerInteraction_def flipGravity_def addEvents_def)

text \<open>
  C4, amended. The gravity direction changes only through an interaction in Ball, Spider or
  Swing mode, which flips it, or through a portal collision that changes the mode, which
  resets it to 1. The velocity update and the move of a sub-step leave it alone, and over
  a whole frame a change comes with a portal sound or with the jump sound of an
  interaction in one of the three modes.
\<close>

theorem gravityDir_change_sources:
  "(gravityDir (player (triggerInteraction K chunks paused isAutoJump s)) \<noteq> gravityDir (player s) \<longrightarrow>
      (mode (player s) = BALL \<or> mode (player s) = SPIDER \<or> mode (player s) = SWING)
      \<and> gravityDir (player (triggerInteraction K chunks paused isAutoJump s))
          = flipGravity (gravityDir (player s)))
   \<and> (gravityDir (player (flowState (collideObj K prevX ipy phX phY s obj))) \<noteq> gravityDir (player s) \<longrightarrow>
      isPortal (otype obj)
      \<and> mode (player (flowState (collideObj K prevX ipy phX phY s obj))) \<noteq> mode (player s)
      \<and> gravityDir (player (flowState (collideObj K prevX ipy phX phY s obj))) = 1)
   \<and> gravityDir (player (applyVelocity K s)) = gravityDir (player s)
   \<and> gravityDir (player (moveStep speed sy s)) = gravityDir (player s)
   \<and> (gravityDir (player (update K objs speed paused s)) \<noteq> gravityDir (player s) \<longrightarrow>
        SoundPortal \<in> set (newEvents s (update K objs speed paused s))
        \<or> (SoundJump \<in> set (newEvents s (update K objs speed paused s))
            \<and> (mode (player (update K objs speed paused s)) = BALL
                \<or> mode (player (update K objs speed paused s)) = SPIDER
                \<or> mode (player (update K objs speed paused s)) = SWING)))"
proof -
  have frame: "gravityDir (player (update K objs speed paused s)) \<noteq> gravityDir (player s) \<longrightarrow>
        SoundPortal \<in> set (newEvents s (update K objs speed paused s))
        \<or> (SoundJump \<in> set (newEvents s (update K objs speed paused s))
            \<and> (mode (player (update K objs speed paused s)) = BALL
                \<or> mode (player (update K objs speed paused s)) = SPIDER
                \<or> mode (player (update K objs speed paused s)) = SWING))"
  proof (cases "paused \<or> isDead (player s)")
    case True
    then show ?thesis using update_idle [of paused s K objs speed] by simp
  next
    case False
    then obtain ne where ne: "events (update K objs speed paused s) = events s @ ne"
      "gravityDir (player (update K objs speed paused s)) \<noteq> gravityDir (player s)
                \<longrightarrow> SoundPortal \<in> set ne
                    \<or> (SoundJump \<in> set ne
                        \<and> (mode (player (update K objs speed paused s)) = BALL
                            \<or> mode (player (update K objs speed paused s)) = SPIDER
                            \<or> mode (player (update K objs speed paused s)) = SWING))"
      using update_trace [of paused s K objs speed] by blast
    from ne(1) have "newEvents s (update K objs speed paused s) = ne"
      by (simp add: newEvents_def)
    with ne(2) show ?thesis by simp
  qed
  show ?thesis
    using gravityDir_triggerInteraction [of K chunks paused isAutoJump s]
      gravityDir_collideObj [of K prevX ipy phX phY s obj]
      gravityDir_applyVelocity [of K s] gravityDir_moveStep [of speed sy s] frame
    by blast
qed

theorem gravityDir_change_sources_witness:
  "gravityDir (player (triggerInteraction sampleConstants Map.empty False False swingPlayer))
     \<noteq> gravityDir (player swingPlayer)
   \<and> mode (player swingPlayer) = SWING
   \<and> gravityDir (player (triggerInteraction sampleConstants Map.empty False False swingPlayer))
       = flipGravity (gravityDir (player swingPlayer))
   \<and> gravityDir (player (flowState (collideObj sampleConstants 45 100 54 104 invertedBall (mkObject PORTAL_SHIP 80 100))))
       \<noteq> gravityDir (player invertedBall)
   \<and> isPortal (otype (mkObject PORTAL_SHIP 80 100))
   \<and> gravityDir (player (flowState (collideObj sampleConstants 45 100 54 104 invertedBall (mkObject PORTAL_SHIP 80 100)))) = 1"
proof -
  have a: "gravityDir (player (triggerInteraction sampleConstants Map.empty False False swingPlayer))
     \<noteq> gravityDir (player swingPlayer)"
    by (simp add: swingPlayer_def sample_defs triggerInteraction_def flipGravity_def addEvents_def)
  have b: "gravityDir (player (flowState (collideObj sampleConstants 45 100 54 104 invertedBall (mkObject PORTAL_SHIP 80 100))))
       \<noteq> gravityDir (player invertedBall)"
    by (simp add: invertedBall_def sample_defs collideObj_def portalOverlap_def enterPortal_def
          addEvents_def)
  have m: "mode (player swingPlayer) = SWING"
    by (simp add: swingPlayer_def sample_defs)
  have p: "isPortal (otype (mkObject PORTAL_SHIP 80 100))"
    by (simp add: mkObject_def)
  from a
    gravityDir_change_sources [of sampleConstants Map.empty False False swingPlayer 45 100 54 104
      "mkObject PORTAL_SHIP 80 100" 5 0 "[]"]
  have c: "gravityDir (player (triggerInteraction sampleConstants Map.empty False False swingPlayer))
       = flipGravity (gravityDir (player swingPlayer))"
    by blast
  from b
    gravityDir_change_sources [of sampleConstants Map.empty False False invertedBall 45 100 54 104
      "mkObject PORTAL_SHIP 80 100" 5 0 "[]"]
  have d: "gravityDir (player (flowState (collideObj sampleConstants 45 100 54 104 invertedBall
             (mkObject PORTAL_SHIP 80 100)))) = 1"
    by blast
  from a b c d m p show ?thesis by blast
qed

section \<open>The vertical range\<close>




section \<open>Win distance and completion\<close>

text \<open>
  C6. \<open>winX\<close> depends on the level alone: it is \<open>MIN_WIN_DISTANCE\<close> for the empty level and
  \<open>max(MIN_WIN_DISTANCE, maxObjectX + 1000)\<close> otherwise. After every frame that runs (not
  paused, player alive at its start) the completion is \<open>min(100, x / winX * 100)\<close>, and a
  frame that does not run keeps it so; the win is signalled in a frame exactly when the
  frame runs and ends with \<open>x > winX\<close>.
\<close>

theorem win_distance_and_completion:
  "winX [] = MIN_WIN_DISTANCE
   \<and> (objs \<noteq> [] \<longrightarrow> winX objs = max MIN_WIN_DISTANCE (Max (ox ` set objs) + 1000))
   \<and> ((\<not> paused \<and> \<not> isDead (player s))
        \<or> completion s = min 100 (px (player s) / winX objs * 100) \<longrightarrow>
        completion (update K objs speed paused s)
          = min 100 (px (player (update K objs speed paused s)) / winX objs * 100))
   \<and> (Win \<in> set (newEvents s (update K objs speed paused s))
        \<longleftrightarrow> \<not> paused \<and> \<not> isDead (player s)
            \<and> px (player (update K objs speed paused s)) > winX objs)"
proof -
  have empty: "winX [] = MIN_WIN_DISTANCE"
    by (simp add: winX_def lastObjX_def MIN_WIN_DISTANCE_def)
  have idle: "completion (update K objs speed paused s) = completion s
        \<and> px (player (update K objs speed paused s)) = px (player s)
        \<and> Win \<notin> set (newEvents s (update K objs speed paused s))"
    if "paused \<or> isDead (player s)"
    using update_idle [OF that, of K objs speed] by (simp add: newEvents_def)
  have run: "completion (update K objs speed paused s)
          = min 100 (px (player (update K objs speed paused s)) / winX objs * 100)
        \<and> (Win \<in> set (newEvents s (update K objs speed paused s))
             \<longleftrightarrow> px (player (update K objs speed paused s)) > winX objs)"
    if r: "\<not> paused" "\<not> isDead (player s)"
  proof -
    obtain ne where ne: "events (update K objs speed paused s) = events s @ ne"
      "Win \<in> set ne \<longleftrightarrow> px (player (update K objs speed paused s)) > winX objs"
      using update_trace [OF r, of K objs speed] by blast
    from ne(1) have "newEvents s (update K objs speed paused s) = ne"
      by (simp add: newEvents_def)
    moreover have "completion (update K objs speed paused s)
          = min 100 (px (player (update K objs speed paused s)) / winX objs * 100)"
      using finishFrame_frame [of K objs "physics K objs speed (s\<lparr>frame := frame s + 1\<rparr>)"]
      by (simp add: update_running [OF r])
    ultimately show ?thesis using ne(2) by simp
  qed
  show ?thesis
  proof (cases "paused \<or> isDead (player s)")
    case True
    from idle [OF True] True empty winX_nonempty show ?thesis by auto
  next
    case False
    then have "\<not> paused" "\<not> isDead (player s)" by simp_all
    from run [OF this] this empty winX_nonempty show ?thesis by auto
  qed
qed

theorem win_distance_and_completion_witness:
  "[mkObject BLOCK 5000 320] \<noteq> []
   \<and> winX [mkObject BLOCK 5000 320] = 6000
   \<and> \<not> isDead (player nearWin)
   \<and> px (player (update sampleConstants [] 5 False nearWin)) = 3004
   \<and> completion (update sampleConstants [] 5 False nearWin) = 100
   \<and> Win \<in> set (newEvents nearWin (update sampleConstants [] 5 False nearWin))"
proof -
  have a: "\<not> False \<and> \<not> isDead (player nearWin)"
    by (simp add: nearWin_def sample_defs)
  have x: "px (player (update sampleConstants [] 5 False nearWin)) = 3004"
    by (simp add: nearWin_def sample_defs run_defs game_consts gather_empty buildChunks_Nil
          numeral_2_eq_2)
  have w: "winX [] = 3000"
    by (simp add: winX_def lastObjX_def MIN_WIN_DISTANCE_def)
  from a x w
    win_distance_and_completion [of "[mkObject BLOCK 5000 320]" False nearWin sampleConstants 5]
    win_distance_and_completion [of "[]" False nearWin sampleConstants 5]
  show ?thesis by (simp add: mkObject_def MIN_WIN_DISTANCE_def)
qed

section \<open>The frame's velocity\<close>




section \<open>Portals of the current mode\<close>

text \<open>
  C8. A portal whose kind maps to the player's current mode changes nothing: the whole
  session state, the player and the emitted events included, is the one before, whether
  or not the collision triggers.
\<close>

theorem portal_same_mode_noop:
  assumes "isPortal (otype obj)" and "portalMode (otype obj) (mode (player s)) = mode (player s)"
  shows "collideObj K prevX internalPrevY phX phY s obj = Continue s \<and> enterPortal K obj s = s"
  using assms by (cases "otype obj") (simp_all add: collideObj_def enterPortal_def Let_def)

theorem portal_same_mode_noop_witness:
  "isPortal (otype (mkObject PORTAL_SHIP 80 100))
   \<and> portalMode (otype (mkObject PORTAL_SHIP 80 100)) (mode (player (simOf (startPlayer\<lparr>py := 100, mode := SHIP\<rparr>))))
       = mode (player (simOf (startPlayer\<lparr>py := 100, mode := SHIP\<rparr>)))
   \<and> portalOverlap sampleConstants (player (simOf (startPlayer\<lparr>py := 100, mode := SHIP\<rparr>))) (mkObject PORTAL_SHIP 80 100)
   \<and> (45::real) + PLAYER_SIZE sampleConstants \<le> ox (mkObject PORTAL_SHIP 80 100) + 15
   \<and> collideObj sampleConstants 45 100 54 104 (simOf (startPlayer\<lparr>py := 100, mode := SHIP\<rparr>)) (mkObject PORTAL_SHIP 80 100)
       = Continue (simOf (startPlayer\<lparr>py := 100, mode := SHIP\<rparr>))"
  using portal_same_mode_noop [of "mkObject PORTAL_SHIP 80 100" "simOf (startPlayer\<lparr>py := 100, mode := SHIP\<rparr>)" sampleConstants 45 100 54 104]
  by (simp add: sample_defs portalOverlap_def)

section \<open>The sub-step count\<close>

text \<open>
  C9. For every scroll speed \<open>S\<close> the sub-step count is \<open>max(1, ceil(S / 4))\<close>; it is at
  least 1 and so never 0, and the two per-sub-step displacements are true quotients:
  multiplied by the count they give back \<open>S\<close> and \<open>vy\<close>.
\<close>

theorem steps_never_zero:
  "steps S = max 1 \<lceil>S / 4\<rceil> \<and> 1 \<le> steps S \<and> steps S \<noteq> 0
   \<and> stepX S * real_of_int (steps S) = S \<and> stepY S v * real_of_int (steps S) = v"
  by (simp add: steps_def stepX_def stepY_def)

section \<open>Spider gravity\<close>



end
